theory Spec2Isabelle
  imports Main "HOL-Library.Word"
begin

text \<open>
  A model of the packages \<^verbatim>\<open>abilities\<close>, \<^verbatim>\<open>condition\<close>, \<^verbatim>\<open>inventory\<close> and
  \<^verbatim>\<open>character\<close> of the character-creation service. Every function is modelled
  with the checks, the case order and the updates of its source. A method with a
  pointer receiver takes the receiver and returns it as the call leaves it. The
  calls to \<^verbatim>\<open>log.Printf\<close> and \<^verbatim>\<open>log.Println\<close> write to the process log only and are
  left out.
\<close>

section \<open>Machine integers and errors\<close>

text \<open>
  Go's \<^verbatim>\<open>int\<close> is modelled at its width on 64-bit targets: a 64-bit word whose
  \<open>+\<close>, \<open>-\<close> and \<open>*\<close> wrap around as Go's do. Go compares \<^verbatim>\<open>int\<close> values as
  signed numbers, so every \<^verbatim>\<open><\<close> of the source is \<open><s\<close> and every read of a
  value as a number is \<open>sint\<close>.
\<close>

type_synonym goint = "64 word"

text \<open>
  Every \<^verbatim>\<open>fmt.Errorf\<close> of the source is one constructor, carrying the arguments
  of the format string that the message depends on:
  \<^item> \<open>AbilityOutOfRange n v\<close>: "ability n value v must be in range [1, 10]";
  \<^item> \<open>TotalMismatch t e\<close>: "total ability points (t) must equal e (...)";
  \<^item> \<open>DecreaseBelowMinimum n\<close>: "cannot decrease n below minimum (1)";
  \<^item> \<open>IncreaseAboveMaximum n\<close>: "cannot increase n above maximum (10)";
  \<^item> \<open>SetBelowMinimum n\<close>: "cannot set n below minimum (1)";
  \<^item> \<open>SetAboveMaximum n\<close>: "cannot set n above maximum (10)";
  \<^item> \<open>InsufficientPoints d p\<close>: "insufficient points in pool: need d, have p";
  \<^item> \<open>UnknownAbility n\<close>: "unknown ability: n";
  \<^item> \<open>InsufficientQuantity h n\<close>: "insufficient quantity: have h, need n";
  \<^item> \<open>ItemNotFound n\<close>: "item n not found in inventory".
\<close>

datatype error =
    AbilityOutOfRange string goint
  | TotalMismatch goint goint
  | DecreaseBelowMinimum string
  | IncreaseAboveMaximum string
  | SetBelowMinimum string
  | SetAboveMaximum string
  | InsufficientPoints goint goint
  | UnknownAbility string
  | InsufficientQuantity goint goint
  | ItemNotFound string

section \<open>Package abilities\<close>

definition MinAbilityValue :: goint where
  "MinAbilityValue = 1"

definition MaxAbilityValue :: goint where
  "MaxAbilityValue = 10"

definition DefaultAbilityValue :: goint where
  "DefaultAbilityValue = 5"

definition AbilityPointBudget :: goint where
  "AbilityPointBudget = 5"

record Abilities =
  pointsPool :: goint
  strength :: goint
  luck :: goint
  charisma :: goint
  agility :: goint
  perception :: goint
  intelligence :: goint

definition NewDefaultAbilities :: Abilities where
  "NewDefaultAbilities =
     \<lparr>pointsPool = AbilityPointBudget,
      strength = DefaultAbilityValue,
      luck = DefaultAbilityValue,
      charisma = DefaultAbilityValue,
      agility = DefaultAbilityValue,
      perception = DefaultAbilityValue,
      intelligence = DefaultAbilityValue\<rparr>"

text \<open>
  The range loop of \<^verbatim>\<open>NewAbilities\<close> (and of \<^verbatim>\<open>ValidateAbilities\<close>): it walks the
  (name, value) pairs in order and returns at the first value outside the range.
\<close>

fun range_loop :: "(string \<times> goint) list \<Rightarrow> error option" where
  "range_loop [] = None"
| "range_loop ((n, v) # rest) =
     (if v <s MinAbilityValue \<or> MaxAbilityValue <s v
      then Some (AbilityOutOfRange n v)
      else range_loop rest)"

definition NewAbilities ::
  "goint \<Rightarrow> goint \<Rightarrow> goint \<Rightarrow> goint \<Rightarrow> goint \<Rightarrow> goint \<Rightarrow> error + Abilities" where
  "NewAbilities str lck cha agi per int' =
     (case range_loop
             [(''strength'', str), (''luck'', lck), (''charisma'', cha),
              (''agility'', agi), (''perception'', per), (''intelligence'', int')] of
        Some e \<Rightarrow> Inl e
      | None \<Rightarrow>
          (let totalAbilitySum = str + lck + cha + agi + per + int';
               expectedSum = (6 * DefaultAbilityValue) + AbilityPointBudget
           in if totalAbilitySum \<noteq> expectedSum
              then Inl (TotalMismatch totalAbilitySum expectedSum)
              else
                (let pointsSpent =
                       (str - DefaultAbilityValue) + (lck - DefaultAbilityValue) +
                       (cha - DefaultAbilityValue) + (agi - DefaultAbilityValue) +
                       (per - DefaultAbilityValue) + (int' - DefaultAbilityValue);
                     remainingPoints = AbilityPointBudget - pointsSpent
                 in Inr \<lparr>pointsPool = remainingPoints,
                         strength = str,
                         luck = lck,
                         charisma = cha,
                         agility = agi,
                         perception = per,
                         intelligence = int'\<rparr>)))"

definition ValidateAbilities :: "Abilities \<Rightarrow> error option" where
  "ValidateAbilities a =
     range_loop
       [(''strength'', strength a), (''luck'', luck a), (''charisma'', charisma a),
        (''agility'', agility a), (''perception'', perception a),
        (''intelligence'', intelligence a)]"

text \<open>
  The two \<^verbatim>\<open>switch abilityName\<close> statements shared by \<^verbatim>\<open>AddToAbility\<close> and
  \<^verbatim>\<open>SetAbility\<close>: the closure \<^verbatim>\<open>getCurrentValue\<close>, whose default case returns 0,
  and the assignment to the named field, whose default case returns the
  "unknown ability" error (here \<open>None\<close>: no field was assigned).
\<close>

definition getCurrentValue :: "Abilities \<Rightarrow> string \<Rightarrow> goint" where
  "getCurrentValue a abilityName =
     (if abilityName = ''strength'' then strength a
      else if abilityName = ''luck'' then luck a
      else if abilityName = ''charisma'' then charisma a
      else if abilityName = ''agility'' then agility a
      else if abilityName = ''perception'' then perception a
      else if abilityName = ''intelligence'' then intelligence a
      else 0)"

definition assignAbility :: "Abilities \<Rightarrow> string \<Rightarrow> goint \<Rightarrow> Abilities option" where
  "assignAbility a abilityName v =
     (if abilityName = ''strength'' then Some (a\<lparr>strength := v\<rparr>)
      else if abilityName = ''luck'' then Some (a\<lparr>luck := v\<rparr>)
      else if abilityName = ''charisma'' then Some (a\<lparr>charisma := v\<rparr>)
      else if abilityName = ''agility'' then Some (a\<lparr>agility := v\<rparr>)
      else if abilityName = ''perception'' then Some (a\<lparr>perception := v\<rparr>)
      else if abilityName = ''intelligence'' then Some (a\<lparr>intelligence := v\<rparr>)
      else None)"

text \<open>
  The methods on \<^verbatim>\<open>*Abilities\<close> mutate their receiver and return an error: the
  model returns the receiver after the call together with the error (\<open>None\<close>
  for \<^verbatim>\<open>nil\<close>).
\<close>

definition AddToAbility :: "Abilities \<Rightarrow> string \<Rightarrow> goint \<Rightarrow> Abilities \<times> error option" where
  "AddToAbility a abilityName v =
     (let currentValue = getCurrentValue a abilityName;
          newValue = currentValue + v
      in if newValue <s MinAbilityValue
         then (a, Some (DecreaseBelowMinimum abilityName))
         else if MaxAbilityValue <s newValue
         then (a, Some (IncreaseAboveMaximum abilityName))
         else
           (let currentCost = currentValue - DefaultAbilityValue;
                newCost = newValue - DefaultAbilityValue;
                pointDelta = newCost - currentCost
            in if 0 <s pointDelta \<and> pointsPool a <s pointDelta
               then (a, Some (InsufficientPoints pointDelta (pointsPool a)))
               else
                 (case assignAbility a abilityName newValue of
                    None \<Rightarrow> (a, Some (UnknownAbility abilityName))
                  | Some a' \<Rightarrow> (a'\<lparr>pointsPool := pointsPool a' - pointDelta\<rparr>, None))))"

definition SetAbility :: "Abilities \<Rightarrow> string \<Rightarrow> goint \<Rightarrow> Abilities \<times> error option" where
  "SetAbility a abilityName v =
     (if v <s MinAbilityValue
      then (a, Some (SetBelowMinimum abilityName))
      else if MaxAbilityValue <s v
      then (a, Some (SetAboveMaximum abilityName))
      else
        (let currentValue = getCurrentValue a abilityName;
             currentCost = currentValue - DefaultAbilityValue;
             newCost = v - DefaultAbilityValue;
             pointDelta = newCost - currentCost
         in if 0 <s pointDelta \<and> pointsPool a <s pointDelta
            then (a, Some (InsufficientPoints pointDelta (pointsPool a)))
            else
              (case assignAbility a abilityName v of
                 None \<Rightarrow> (a, Some (UnknownAbility abilityName))
               | Some a' \<Rightarrow> (a'\<lparr>pointsPool := pointsPool a' - pointDelta\<rparr>, None))))"

definition GetIntelligence :: "Abilities \<Rightarrow> goint" where
  "GetIntelligence a = intelligence a"

definition GetPointsPool :: "Abilities \<Rightarrow> goint" where
  "GetPointsPool a = pointsPool a"

text \<open>The closed range [1,10] of an ability value, read as a signed number.\<close>

definition in_range :: "goint \<Rightarrow> bool" where
  "in_range v \<longleftrightarrow> 1 \<le> sint v \<and> sint v \<le> 10"

text \<open>
  The tuples the validated constructor is to accept: every value in [1,10] and
  the sum 35, which is six times the default of 5 plus the budget of 5.
\<close>

definition valid_tuple :: "goint \<Rightarrow> goint \<Rightarrow> goint \<Rightarrow> goint \<Rightarrow> goint \<Rightarrow> goint \<Rightarrow> bool" where
  "valid_tuple s l c g p i \<longleftrightarrow>
     in_range s \<and> in_range l \<and> in_range c \<and> in_range g \<and> in_range p \<and> in_range i \<and>
     sint s + sint l + sint c + sint g + sint p + sint i = 35"

text \<open>The six names the two switches recognise.\<close>

definition recognized :: "string \<Rightarrow> bool" where
  "recognized abilityName \<longleftrightarrow>
     abilityName \<in> set [''strength'', ''luck'', ''charisma'', ''agility'', ''perception'',
                        ''intelligence'']"

text \<open>
  The state invariant of the specification: every attribute in [1,10] and a
  pool that is not negative.
\<close>

definition abilities_ok :: "Abilities \<Rightarrow> bool" where
  "abilities_ok a \<longleftrightarrow>
     in_range (strength a) \<and> in_range (luck a) \<and> in_range (charisma a) \<and>
     in_range (agility a) \<and> in_range (perception a) \<and> in_range (intelligence a) \<and>
     0 \<le> sint (pointsPool a)"

text \<open>
  The economy behind the pool: the pool and the six attributes add up to the
  baseline of 30 plus the budget of 5.
\<close>

definition budget_kept :: "Abilities \<Rightarrow> bool" where
  "budget_kept a \<longleftrightarrow>
     sint (pointsPool a) + sint (strength a) + sint (luck a) + sint (charisma a) +
     sint (agility a) + sint (perception a) + sint (intelligence a) = 35"

text \<open>
  The zero value \<^verbatim>\<open>Abilities{}\<close>: what \<^verbatim>\<open>NewAbilities\<close> returns beside an error, and
  what a declaration without a constructor gives.
\<close>

definition zeroAbilities :: Abilities where
  "zeroAbilities =
     \<lparr>pointsPool = 0, strength = 0, luck = 0, charisma = 0, agility = 0, perception = 0,
      intelligence = 0\<rparr>"

text \<open>
  The values of the type. The fields of \<^verbatim>\<open>Abilities\<close> are unexported and the package
  assigns them in the two constructors and the two mutators only, so an
  \<^verbatim>\<open>Abilities\<close> is the zero value, the result of a constructor, or the receiver
  after a mutator was called on such a value, whatever the mutator returned.
\<close>

inductive built :: "Abilities \<Rightarrow> bool" where
  zero: "built zeroAbilities"
| default: "built NewDefaultAbilities"
| validated: "NewAbilities s l c g p i = Inr a \<Longrightarrow> built a"
| adjusted: "built a \<Longrightarrow> built (fst (AddToAbility a n v))"
| reset: "built a \<Longrightarrow> built (fst (SetAbility a n v))"

section \<open>Package condition\<close>

type_synonym Condition = string

definition NewCondition :: "string \<Rightarrow> Condition" where
  "NewCondition cond = cond"

definition Condition_String :: "Condition \<Rightarrow> string" where
  "Condition_String c = c"

section \<open>Package inventory\<close>

text \<open>
  The field \<^verbatim>\<open>abilities *abilities.Abilities\<close> of an item is a pointer that may be
  \<^verbatim>\<open>nil\<close>; the inventory operations only copy it, so it is modelled by the value
  it points to, \<open>None\<close> for \<^verbatim>\<open>nil\<close>.
\<close>

record Item =
  Name :: string
  quantity :: goint
  abilities :: "Abilities option"
  condition :: Condition
  description :: string

record Inventory =
  Items :: "Item list"

definition Item_SetName :: "Item \<Rightarrow> string \<Rightarrow> Item" where
  "Item_SetName i nm = i\<lparr>Name := nm\<rparr>"

definition Item_SetQuantity :: "Item \<Rightarrow> goint \<Rightarrow> Item" where
  "Item_SetQuantity i q = i\<lparr>quantity := q\<rparr>"

definition Item_SetAbilities :: "Item \<Rightarrow> Abilities option \<Rightarrow> Item" where
  "Item_SetAbilities i abs' = i\<lparr>abilities := abs'\<rparr>"

definition Item_SetCondition :: "Item \<Rightarrow> Condition \<Rightarrow> Item" where
  "Item_SetCondition i cond = i\<lparr>condition := cond\<rparr>"

definition Item_SetDescription :: "Item \<Rightarrow> string \<Rightarrow> Item" where
  "Item_SetDescription i d = i\<lparr>description := d\<rparr>"

definition NewInventory :: Inventory where
  "NewInventory = \<lparr>Items = []\<rparr>"

text \<open>
  The loop of \<^verbatim>\<open>AddItem\<close> walks the items in order; at the first one with the
  item's name and condition it adds the quantities in place and returns. \<open>None\<close>
  says that the loop ran to its end, and the item is appended.
\<close>

fun AddItem_loop :: "Item list \<Rightarrow> Item \<Rightarrow> Item list option" where
  "AddItem_loop [] item = None"
| "AddItem_loop (x # xs) item =
     (if Name x = Name item \<and> condition x = condition item
      then Some (x\<lparr>quantity := quantity x + quantity item\<rparr> # xs)
      else map_option ((#) x) (AddItem_loop xs item))"

definition AddItem :: "Inventory \<Rightarrow> Item \<Rightarrow> Inventory" where
  "AddItem inv' item =
     (case AddItem_loop (Items inv') item of
        Some items' \<Rightarrow> inv'\<lparr>Items := items'\<rparr>
      | None \<Rightarrow> inv'\<lparr>Items := Items inv' @ [item]\<rparr>)"

text \<open>
  The loop of \<^verbatim>\<open>RemoveItem\<close> stops at the first item with the name. The
  \<^verbatim>\<open>append(inv.Items[:i], inv.Items[i+1:]...)\<close> of the source is the list without
  its element \<open>i\<close>.
\<close>

fun RemoveItem_loop :: "Item list \<Rightarrow> string \<Rightarrow> goint \<Rightarrow> Item list \<times> error option" where
  "RemoveItem_loop [] nm q = ([], Some (ItemNotFound nm))"
| "RemoveItem_loop (x # xs) nm q =
     (if Name x = nm
      then
        (if quantity x <s q
         then (x # xs, Some (InsufficientQuantity (quantity x) q))
         else
           (let x' = x\<lparr>quantity := quantity x - q\<rparr>
            in if quantity x' = 0 then (xs, None) else (x' # xs, None)))
      else
        (case RemoveItem_loop xs nm q of (ys, e) \<Rightarrow> (x # ys, e)))"

definition RemoveItem :: "Inventory \<Rightarrow> string \<Rightarrow> goint \<Rightarrow> Inventory \<times> error option" where
  "RemoveItem inv' nm q =
     (case RemoveItem_loop (Items inv') nm q of (items', e) \<Rightarrow> (inv'\<lparr>Items := items'\<rparr>, e))"

text \<open>
  \<^verbatim>\<open>GetItem\<close> returns \<^verbatim>\<open>&inv.Items[i]\<close> for the first \<open>i\<close> whose item has the name,
  or \<^verbatim>\<open>nil\<close>: the pointer is modelled by the index \<open>i\<close>.
\<close>

fun GetItem_loop :: "Item list \<Rightarrow> string \<Rightarrow> nat option" where
  "GetItem_loop [] nm = None"
| "GetItem_loop (x # xs) nm =
     (if Name x = nm then Some 0 else map_option Suc (GetItem_loop xs nm))"

definition GetItem :: "Inventory \<Rightarrow> string \<Rightarrow> nat option" where
  "GetItem inv' nm = GetItem_loop (Items inv') nm"

text \<open>
  The \<^verbatim>\<open>any\<close> argument of \<^verbatim>\<open>ChangeItem\<close>, by its dynamic type: the four types the
  type assertions of the source test for, and \<open>VOther\<close> for a value of any other
  type (the \<^verbatim>\<open>nil\<close> interface value among them). A \<^verbatim>\<open>*abilities.Abilities\<close> may be
  a \<^verbatim>\<open>nil\<close> pointer, \<open>VAbilities None\<close>, which the assertion accepts.
\<close>

datatype anyval =
    VString string
  | VInt goint
  | VCondition Condition
  | VAbilities "Abilities option"
  | VOther

text \<open>
  The \<^verbatim>\<open>for _, field := range fields\<close> loop of \<^verbatim>\<open>ChangeItem\<close> on the item found. It
  returns the item as the loop leaves it and whether the loop ran to its end:
  \<open>False\<close> is the \<^verbatim>\<open>return nil\<close> of the default case, taken after the fields
  before it were assigned.
\<close>

fun ChangeItem_loop :: "Item \<Rightarrow> string list \<Rightarrow> anyval \<Rightarrow> Item \<times> bool" where
  "ChangeItem_loop item [] newVal = (item, True)"
| "ChangeItem_loop item (field # rest) newVal =
     (if field = ''name'' then
        ChangeItem_loop
          (case newVal of VString v \<Rightarrow> Item_SetName item v | _ \<Rightarrow> item) rest newVal
      else if field = ''quantity'' then
        ChangeItem_loop
          (case newVal of VInt v \<Rightarrow> Item_SetQuantity item v | _ \<Rightarrow> item) rest newVal
      else if field = ''condition'' then
        ChangeItem_loop
          (case newVal of VCondition v \<Rightarrow> Item_SetCondition item v | _ \<Rightarrow> item) rest newVal
      else if field = ''description'' then
        ChangeItem_loop
          (case newVal of VString v \<Rightarrow> Item_SetDescription item v | _ \<Rightarrow> item) rest newVal
      else if field = ''abilities'' then
        ChangeItem_loop
          (case newVal of VAbilities v \<Rightarrow> Item_SetAbilities item v | _ \<Rightarrow> item) rest newVal
      else (item, False))"

definition ChangeItem ::
  "Inventory \<Rightarrow> string \<Rightarrow> string list \<Rightarrow> anyval \<Rightarrow> Inventory \<times> nat option" where
  "ChangeItem inv' nm fields' newVal =
     (if length (Items inv') = 0 then (inv', None)
      else
        (case GetItem inv' nm of
           None \<Rightarrow> (inv', None)
         | Some i \<Rightarrow>
             (case ChangeItem_loop (Items inv' ! i) fields' newVal of
                (item', finished) \<Rightarrow>
                  (inv'\<lparr>Items := (Items inv')[i := item']\<rparr>,
                   if finished then Some i else None))))"

text \<open>The case labels of the \<^verbatim>\<open>switch field\<close> of \<^verbatim>\<open>ChangeItem\<close>.\<close>

definition field_names :: "string set" where
  "field_names = {''name'', ''quantity'', ''condition'', ''description'', ''abilities''}"

text \<open>
  The specification's account of \<^verbatim>\<open>ChangeItem\<close> on the item found, to compare the
  loop with: each field named in the list whose expected type is the type of the
  value takes the value (name and description a text, quantity an integer,
  condition a Condition, abilities an Abilities pointer); every other field keeps
  its own.
\<close>

definition spec_changed_item :: "Item \<Rightarrow> string list \<Rightarrow> anyval \<Rightarrow> Item" where
  "spec_changed_item it fs v =
     (case v of
        VString s \<Rightarrow>
          it\<lparr>Name := if ''name'' \<in> set fs then s else Name it,
             description := if ''description'' \<in> set fs then s else description it\<rparr>
      | VInt k \<Rightarrow> it\<lparr>quantity := if ''quantity'' \<in> set fs then k else quantity it\<rparr>
      | VCondition c \<Rightarrow> it\<lparr>condition := if ''condition'' \<in> set fs then c else condition it\<rparr>
      | VAbilities a \<Rightarrow> it\<lparr>abilities := if ''abilities'' \<in> set fs then a else abilities it\<rparr>
      | VOther \<Rightarrow> it)"

section \<open>Package character\<close>

text \<open>
  The fields \<^verbatim>\<open>class\<close>, \<^verbatim>\<open>abilities\<close> and \<^verbatim>\<open>condition\<close> of the source carry a
  suffix here: the first is a keyword, the other two are fields of \<open>Item\<close>.
\<close>

record Character =
  race :: string
  name :: string
  class_c :: string
  abilities_c :: Abilities
  inventory :: Inventory
  condition_c :: Condition
  manaPoints :: goint

definition NewCharacter ::
  "string \<Rightarrow> string \<Rightarrow> string \<Rightarrow> Abilities \<Rightarrow> Inventory \<Rightarrow> Condition \<Rightarrow> Character" where
  "NewCharacter race' name' class' abs' inv' cond =
     \<lparr>race = race',
      name = name',
      class_c = class',
      abilities_c = abs',
      inventory = inv',
      condition_c = cond,
      manaPoints = GetIntelligence abs' * 50\<rparr>"

definition SetName :: "Character \<Rightarrow> string \<Rightarrow> Character" where
  "SetName c newName = (if newName \<noteq> '''' then c\<lparr>name := newName\<rparr> else c)"

definition SetClass :: "Character \<Rightarrow> string \<Rightarrow> Character" where
  "SetClass c newClass = (if newClass \<noteq> '''' then c\<lparr>class_c := newClass\<rparr> else c)"

definition SetCondition :: "Character \<Rightarrow> Condition \<Rightarrow> Character" where
  "SetCondition c newCondition =
     (if Condition_String newCondition \<noteq> '''' then c\<lparr>condition_c := newCondition\<rparr> else c)"

section \<open>Signed reading of small values\<close>

lemma in_range_code: "in_range v \<longleftrightarrow> \<not> (v <s MinAbilityValue \<or> MaxAbilityValue <s v)"
  by (auto simp: in_range_def MinAbilityValue_def MaxAbilityValue_def word_sless_alt)

section \<open>The validated constructor\<close>

lemma range_loop6:
  "range_loop [(n1, a), (n2, b), (n3, c), (n4, d), (n5, e), (n6, f)] = None
   \<longleftrightarrow> in_range a \<and> in_range b \<and> in_range c \<and> in_range d \<and> in_range e \<and> in_range f"
  by (simp add: in_range_code)

lemma sum6:
  fixes a b c d e f :: goint
  assumes "in_range a" "in_range b" "in_range c" "in_range d" "in_range e" "in_range f"
  shows "sint (a + b + c + d + e + f) = sint a + sint b + sint c + sint d + sint e + sint f"
  using assms unfolding in_range_def
  by (simp add: sint_word_ariths signed_take_bit_int_eq_self)

lemma sum6_eq_35:
  fixes a b c d e f :: goint
  assumes "in_range a" "in_range b" "in_range c" "in_range d" "in_range e" "in_range f"
  shows "a + b + c + d + e + f = 35
     \<longleftrightarrow> sint a + sint b + sint c + sint d + sint e + sint f = 35"
proof
  assume "a + b + c + d + e + f = 35"
  then have "sint (a + b + c + d + e + f) = sint (35 :: goint)" by simp
  then show "sint a + sint b + sint c + sint d + sint e + sint f = 35"
    using sum6 [OF assms] by simp
next
  assume "sint a + sint b + sint c + sint d + sint e + sint f = 35"
  then have "sint (a + b + c + d + e + f) = sint (35 :: goint)"
    using sum6 [OF assms] by simp
  then show "a + b + c + d + e + f = 35"
    by (rule signed_word_eqI)
qed

lemma pool_zero:
  fixes a b c d e f :: goint
  assumes "a + b + c + d + e + f = 35"
  shows "5 - ((a - 5) + (b - 5) + (c - 5) + (d - 5) + (e - 5) + (f - 5)) = 0"
proof -
  have "(a - 5) + (b - 5) + (c - 5) + (d - 5) + (e - 5) + (f - 5)
          = (a + b + c + d + e + f) - 30"
    by simp
  then show ?thesis using assms by simp
qed

lemma NewAbilities_Inr_raw:
  "NewAbilities s l c g p i = Inr a \<longleftrightarrow>
     range_loop [(''strength'', s), (''luck'', l), (''charisma'', c),
              (''agility'', g), (''perception'', p), (''intelligence'', i)] = None
     \<and> s + l + c + g + p + i = 35
     \<and> a = \<lparr>pointsPool = 5 - ((s - 5) + (l - 5) + (c - 5) + (g - 5) + (p - 5) + (i - 5)),
            strength = s, luck = l, charisma = c, agility = g, perception = p,
            intelligence = i\<rparr>"
  unfolding NewAbilities_def Let_def DefaultAbilityValue_def AbilityPointBudget_def
  by (auto split: option.splits)

lemma NewAbilities_Inr_iff:
  "NewAbilities s l c g p i = Inr a \<longleftrightarrow>
     (in_range s \<and> in_range l \<and> in_range c \<and> in_range g \<and> in_range p \<and> in_range i)
     \<and> s + l + c + g + p + i = 35
     \<and> a = \<lparr>pointsPool = 5 - ((s - 5) + (l - 5) + (c - 5) + (g - 5) + (p - 5) + (i - 5)),
            strength = s, luck = l, charisma = c, agility = g, perception = p,
            intelligence = i\<rparr>"
  unfolding NewAbilities_Inr_raw range_loop6 by (rule refl)

lemma NewAbilities_Inr_valid:
  "(\<exists>a. NewAbilities s l c g p i = Inr a) \<longleftrightarrow> valid_tuple s l c g p i"
proof
  assume "\<exists>a. NewAbilities s l c g p i = Inr a"
  then have r: "in_range s" "in_range l" "in_range c" "in_range g" "in_range p" "in_range i"
    and w: "s + l + c + g + p + i = 35"
    unfolding NewAbilities_Inr_iff by simp_all
  show "valid_tuple s l c g p i"
    using r w sum6_eq_35 [OF r] by (simp add: valid_tuple_def)
next
  assume v: "valid_tuple s l c g p i"
  then have r: "in_range s" "in_range l" "in_range c" "in_range g" "in_range p" "in_range i"
    by (simp_all add: valid_tuple_def)
  have "s + l + c + g + p + i = 35"
    using v sum6_eq_35 [OF r] by (simp add: valid_tuple_def)
  then show "\<exists>a. NewAbilities s l c g p i = Inr a"
    using r unfolding NewAbilities_Inr_iff by simp
qed

text \<open>
  Claim C1. For every six inputs: when some value is outside [1,10] or the six
  values do not sum to 35, \<^verbatim>\<open>NewAbilities\<close> fails; when every value is in [1,10]
  and the sum is exactly 35, it succeeds, the fields hold the inputs and
  \<open>pointsPool\<close> is \<open>5 - \<Sum>(value - 5)\<close>. Since a call either fails or succeeds,
  every success is one of the second kind. Values and sum are read as signed
  numbers.
\<close>

theorem NewAbilities_contract:
  "(\<not> valid_tuple s l c g p i \<longrightarrow> (\<exists>e. NewAbilities s l c g p i = Inl e))
   \<and> (valid_tuple s l c g p i \<longrightarrow>
        (\<exists>a. NewAbilities s l c g p i = Inr a
           \<and> sint (pointsPool a) =
               5 - ((sint s - 5) + (sint l - 5) + (sint c - 5) + (sint g - 5) + (sint p - 5)
                    + (sint i - 5))
           \<and> strength a = s \<and> luck a = l \<and> charisma a = c \<and> agility a = g
           \<and> perception a = p \<and> intelligence a = i))"
proof (intro conjI impI)
  assume "\<not> valid_tuple s l c g p i"
  then have "\<nexists>a. NewAbilities s l c g p i = Inr a"
    by (simp only: NewAbilities_Inr_valid not_False_eq_True)
  then show "\<exists>e. NewAbilities s l c g p i = Inl e"
    by (cases "NewAbilities s l c g p i") simp_all
next
  assume v: "valid_tuple s l c g p i"
  then obtain a where a: "NewAbilities s l c g p i = Inr a"
    using NewAbilities_Inr_valid [of s l c g p i] by blast
  then have w: "s + l + c + g + p + i = 35"
    and f: "strength a = s" "luck a = l" "charisma a = c" "agility a = g" "perception a = p"
      "intelligence a = i"
    and pool: "pointsPool a = 5 - ((s - 5) + (l - 5) + (c - 5) + (g - 5) + (p - 5) + (i - 5))"
    unfolding NewAbilities_Inr_iff by simp_all
  have "pointsPool a = 0"
    unfolding pool by (rule pool_zero [OF w])
  moreover have "sint s + sint l + sint c + sint g + sint p + sint i = 35"
    using v by (simp add: valid_tuple_def)
  ultimately have "sint (pointsPool a) =
               5 - ((sint s - 5) + (sint l - 5) + (sint c - 5) + (sint g - 5) + (sint p - 5)
                    + (sint i - 5))"
    by simp
  then show "\<exists>a. NewAbilities s l c g p i = Inr a
           \<and> sint (pointsPool a) =
               5 - ((sint s - 5) + (sint l - 5) + (sint c - 5) + (sint g - 5) + (sint p - 5)
                    + (sint i - 5))
           \<and> strength a = s \<and> luck a = l \<and> charisma a = c \<and> agility a = g
           \<and> perception a = p \<and> intelligence a = i"
    using a f by simp
qed

theorem NewAbilities_contract_witness:
  "valid_tuple 7 5 5 5 5 8
   \<and> (\<exists>a. NewAbilities 7 5 5 5 5 8 = Inr a \<and> sint (pointsPool a) = 0
        \<and> strength a = 7 \<and> intelligence a = 8)
   \<and> \<not> valid_tuple 7 5 5 5 5 9 \<and> (\<exists>e. NewAbilities 7 5 5 5 5 9 = Inl e)
   \<and> \<not> valid_tuple 0 10 10 5 5 5 \<and> (\<exists>e. NewAbilities 0 10 10 5 5 5 = Inl e)"
  using NewAbilities_contract [of 7 5 5 5 5 8] NewAbilities_contract [of 7 5 5 5 5 9]
    NewAbilities_contract [of 0 10 10 5 5 5]
  by (auto simp: valid_tuple_def in_range_def)

text \<open>
  Claim C10. Whenever \<^verbatim>\<open>NewAbilities\<close> succeeds, the \<open>pointsPool\<close> it returns is
  exactly 0: the sum 35 spends the whole budget of 5 over the baseline of 30.
\<close>

theorem NewAbilities_pool_zero:
  assumes "NewAbilities s l c g p i = Inr a"
  shows "pointsPool a = 0"
proof -
  from assms have w: "s + l + c + g + p + i = 35"
    and a: "pointsPool a = 5 - ((s - 5) + (l - 5) + (c - 5) + (g - 5) + (p - 5) + (i - 5))"
    unfolding NewAbilities_Inr_iff by simp_all
  show ?thesis unfolding a by (rule pool_zero [OF w])
qed

theorem NewAbilities_pool_zero_witness:
  "NewAbilities 1 10 4 6 9 5 =
      Inr \<lparr>pointsPool = 0, strength = 1, luck = 10, charisma = 4, agility = 6,
          perception = 9, intelligence = 5\<rparr>"
  using NewAbilities_pool_zero [of 1 10 4 6 9 5]
  unfolding NewAbilities_Inr_iff by (simp add: in_range_def)

section \<open>Adjusting and setting an ability\<close>

lemma cost_delta: "(nv - DefaultAbilityValue) - (cur - DefaultAbilityValue) = nv - (cur :: goint)"
  by simp

lemma sint_diff_in_range:
  assumes "in_range nv" "in_range cur"
  shows "sint (nv - cur) = sint nv - sint cur"
  using assms unfolding in_range_def
  by (simp add: sint_word_ariths signed_take_bit_int_eq_self)

lemma sint_pool_debit:
  fixes pool d :: goint
  assumes "0 \<le> sint pool" "sint pool \<le> 2 ^ 63 - 10" "- 9 \<le> sint d" "sint d \<le> 9"
  shows "sint (pool - d) = sint pool - sint d"
proof -
  have "- (2 ^ 63) \<le> sint pool - sint d" "sint pool - sint d < 2 ^ 63"
    using assms by simp_all
  then show ?thesis
    by (simp add: sint_word_ariths signed_take_bit_int_eq_self)
qed

lemma pool_after_debit:
  fixes pool d :: goint
  assumes "0 \<le> sint pool" "sint pool \<le> 2 ^ 63 - 10" "- 9 \<le> sint d" "sint d \<le> 9"
    and "\<not> (0 <s d \<and> pool <s d)"
  shows "0 \<le> sint (pool - d)"
proof (cases "0 <s d")
  case True
  then have "\<not> pool <s d" using assms(5) by simp
  then show ?thesis
    unfolding sint_pool_debit [OF assms(1-4)] by (simp add: word_sless_alt)
next
  case False
  then have "sint d \<le> 0" by (simp add: word_sless_alt)
  then show ?thesis
    unfolding sint_pool_debit [OF assms(1-4)] using assms(1) by simp
qed

lemma assignAbility_Some:
  "assignAbility a n v = Some a' \<Longrightarrow>
     recognized n \<and> pointsPool a' = pointsPool a \<and> getCurrentValue a' n = v"
  by (auto simp: assignAbility_def recognized_def getCurrentValue_def split: if_splits)

lemma assignAbility_None: "assignAbility a n v = None \<longleftrightarrow> \<not> recognized n"
  by (auto simp: assignAbility_def recognized_def)

lemma assignAbility_in_range:
  assumes "assignAbility a n v = Some a'" "abilities_ok a" "in_range v"
  shows "in_range (strength a') \<and> in_range (luck a') \<and> in_range (charisma a') \<and>
     in_range (agility a') \<and> in_range (perception a') \<and> in_range (intelligence a')"
  using assms
  by (auto simp: assignAbility_def abilities_ok_def split: if_splits)

lemma assignAbility_sum:
  assumes "assignAbility a n v = Some a'"
  shows "sint (strength a') + sint (luck a') + sint (charisma a') + sint (agility a') +
           sint (perception a') + sint (intelligence a')
         = sint (strength a) + sint (luck a) + sint (charisma a) + sint (agility a) +
           sint (perception a) + sint (intelligence a) + (sint v - sint (getCurrentValue a n))"
  using assms
  by (auto simp: assignAbility_def getCurrentValue_def split: if_splits)

lemma getCurrentValue_in_range:
  "abilities_ok a \<Longrightarrow> recognized n \<Longrightarrow> in_range (getCurrentValue a n)"
  by (auto simp: getCurrentValue_def abilities_ok_def recognized_def)

lemma abilities_ok_pool:
  "abilities_ok (a\<lparr>pointsPool := p\<rparr>) \<longleftrightarrow>
     in_range (strength a) \<and> in_range (luck a) \<and> in_range (charisma a) \<and>
     in_range (agility a) \<and> in_range (perception a) \<and> in_range (intelligence a) \<and>
     0 \<le> sint p"
  by (simp add: abilities_ok_def)

text \<open>
  A call that returns an error has assigned nothing; a call that returns \<^verbatim>\<open>nil\<close> has
  passed the range check and the budget check, has assigned the named field and
  has debited the pool by the difference of the two values.
\<close>

lemma AddToAbility_failure:
  "AddToAbility a n v = (a', Some e) \<Longrightarrow> a' = a"
  unfolding AddToAbility_def Let_def
  by (auto split: if_splits option.splits)

lemma SetAbility_failure:
  "SetAbility a n v = (a', Some e) \<Longrightarrow> a' = a"
  unfolding SetAbility_def Let_def
  by (auto split: if_splits option.splits)

lemma AddToAbility_success:
  "AddToAbility a n v = (a', None) \<longleftrightarrow>
     in_range (getCurrentValue a n + v) \<and>
     \<not> (0 <s v \<and> pointsPool a <s v) \<and>
     (\<exists>b. assignAbility a n (getCurrentValue a n + v) = Some b
          \<and> a' = b\<lparr>pointsPool := pointsPool a - v\<rparr>)"
  unfolding AddToAbility_def Let_def cost_delta in_range_code
  by (auto dest: assignAbility_Some split: option.splits)

lemma SetAbility_success:
  "SetAbility a n v = (a', None) \<longleftrightarrow>
     in_range v \<and>
     \<not> (0 <s v - getCurrentValue a n \<and> pointsPool a <s v - getCurrentValue a n) \<and>
     (\<exists>b. assignAbility a n v = Some b
          \<and> a' = b\<lparr>pointsPool := pointsPool a - (v - getCurrentValue a n)\<rparr>)"
  unfolding SetAbility_def Let_def cost_delta in_range_code
  by (auto dest: assignAbility_Some split: option.splits)

lemma update_ok:
  assumes ok: "abilities_ok a" and b: "sint (pointsPool a) \<le> 2 ^ 63 - 10"
    and asg: "assignAbility a n nv = Some a'" and nv: "in_range nv"
    and d: "\<not> (0 <s nv - getCurrentValue a n \<and> pointsPool a <s nv - getCurrentValue a n)"
  shows "abilities_ok (a'\<lparr>pointsPool := pointsPool a - (nv - getCurrentValue a n)\<rparr>)"
proof -
  have r: "recognized n" using assignAbility_Some [OF asg] by simp
  have cur: "in_range (getCurrentValue a n)" using ok r by (rule getCurrentValue_in_range)
  have s: "sint (nv - getCurrentValue a n) = sint nv - sint (getCurrentValue a n)"
    using nv cur by (rule sint_diff_in_range)
  have "- 9 \<le> sint (nv - getCurrentValue a n)" "sint (nv - getCurrentValue a n) \<le> 9"
    using nv cur unfolding s in_range_def by simp_all
  moreover have "0 \<le> sint (pointsPool a)" using ok by (simp add: abilities_ok_def)
  ultimately have "0 \<le> sint (pointsPool a - (nv - getCurrentValue a n))"
    using b d by (intro pool_after_debit) simp_all
  then show ?thesis
    using assignAbility_in_range [OF asg ok nv] by (simp add: abilities_ok_pool)
qed

lemma AddToAbility_keeps_ok:
  assumes "abilities_ok a" and "sint (pointsPool a) \<le> 2 ^ 63 - 10"
  shows "abilities_ok (fst (AddToAbility a n v))"
proof (cases "AddToAbility a n v")
  case (Pair a' err)
  show ?thesis
  proof (cases err)
    case None
    with Pair have "AddToAbility a n v = (a', None)" by simp
    then obtain b where "in_range (getCurrentValue a n + v)"
      and "\<not> (0 <s v \<and> pointsPool a <s v)"
      and "assignAbility a n (getCurrentValue a n + v) = Some b"
      and "a' = b\<lparr>pointsPool := pointsPool a - v\<rparr>"
      unfolding AddToAbility_success by blast
    then show ?thesis
      using update_ok [OF assms, of n "getCurrentValue a n + v" b] Pair by simp
  next
    case (Some e)
    with Pair have "a' = a" by (simp add: AddToAbility_failure)
    then show ?thesis using Pair assms(1) by simp
  qed
qed

lemma SetAbility_keeps_ok:
  assumes "abilities_ok a" and "sint (pointsPool a) \<le> 2 ^ 63 - 10"
  shows "abilities_ok (fst (SetAbility a n v))"
proof (cases "SetAbility a n v")
  case (Pair a' err)
  show ?thesis
  proof (cases err)
    case None
    with Pair have "SetAbility a n v = (a', None)" by simp
    then obtain b where "in_range v"
      and "\<not> (0 <s v - getCurrentValue a n \<and> pointsPool a <s v - getCurrentValue a n)"
      and "assignAbility a n v = Some b"
      and "a' = b\<lparr>pointsPool := pointsPool a - (v - getCurrentValue a n)\<rparr>"
      unfolding SetAbility_success by blast
    then show ?thesis
      using update_ok [OF assms, of n v b] Pair by simp
  next
    case (Some e)
    with Pair have "a' = a" by (simp add: SetAbility_failure)
    then show ?thesis using Pair assms(1) by simp
  qed
qed

text \<open>
  The economy of the pool: both constructors establish, and both mutators keep,
  that the pool and the six attributes add up to 35. The pool of such a state is
  at most 29, far from the largest \<^verbatim>\<open>int\<close>.
\<close>

lemma budget_kept_bound:
  assumes "abilities_ok a" "budget_kept a"
  shows "sint (pointsPool a) \<le> 29"
  using assms unfolding abilities_ok_def budget_kept_def in_range_def by linarith

lemma update_budget:
  assumes ok: "abilities_ok a" and k: "budget_kept a"
    and asg: "assignAbility a n nv = Some a'" and nv: "in_range nv"
  shows "budget_kept (a'\<lparr>pointsPool := pointsPool a - (nv - getCurrentValue a n)\<rparr>)"
proof -
  have r: "recognized n" using assignAbility_Some [OF asg] by simp
  have cur: "in_range (getCurrentValue a n)" using ok r by (rule getCurrentValue_in_range)
  have s: "sint (nv - getCurrentValue a n) = sint nv - sint (getCurrentValue a n)"
    using nv cur by (rule sint_diff_in_range)
  have d: "- 9 \<le> sint (nv - getCurrentValue a n)" "sint (nv - getCurrentValue a n) \<le> 9"
    using nv cur unfolding s in_range_def by simp_all
  have p: "0 \<le> sint (pointsPool a)" using ok by (simp add: abilities_ok_def)
  have b: "sint (pointsPool a) \<le> 2 ^ 63 - 10"
    using budget_kept_bound [OF ok k] by simp
  have "sint (pointsPool a - (nv - getCurrentValue a n))
          = sint (pointsPool a) - (sint nv - sint (getCurrentValue a n))"
    using sint_pool_debit [OF p b d] s by simp
  then show ?thesis
    using k assignAbility_sum [OF asg] unfolding budget_kept_def by simp
qed

lemma constructors_budget:
  "abilities_ok NewDefaultAbilities \<and> budget_kept NewDefaultAbilities"
  "NewAbilities s l c g p i = Inr a \<Longrightarrow> abilities_ok a \<and> budget_kept a"
proof -
  show "abilities_ok NewDefaultAbilities \<and> budget_kept NewDefaultAbilities"
    by (simp add: abilities_ok_def budget_kept_def in_range_def NewDefaultAbilities_def
        DefaultAbilityValue_def AbilityPointBudget_def)
next
  assume h: "NewAbilities s l c g p i = Inr a"
  then have r: "in_range s" "in_range l" "in_range c" "in_range g" "in_range p" "in_range i"
    and w: "s + l + c + g + p + i = 35"
    and f: "strength a = s" "luck a = l" "charisma a = c" "agility a = g" "perception a = p"
      "intelligence a = i"
    unfolding NewAbilities_Inr_iff by simp_all
  have z: "pointsPool a = 0"
    using h unfolding NewAbilities_Inr_iff using pool_zero [OF w] by simp
  have "sint s + sint l + sint c + sint g + sint p + sint i = 35"
    using sum6_eq_35 [OF r] w by simp
  then show "abilities_ok a \<and> budget_kept a"
    using r f z by (simp add: abilities_ok_def budget_kept_def)
qed

lemma mutators_keep_budget:
  assumes "abilities_ok a" "budget_kept a"
  shows "budget_kept (fst (AddToAbility a n v)) \<and> budget_kept (fst (SetAbility a n v))"
proof
  show "budget_kept (fst (AddToAbility a n v))"
  proof (cases "AddToAbility a n v")
    case (Pair a' err)
    show ?thesis
    proof (cases err)
      case None
      with Pair have "AddToAbility a n v = (a', None)" by simp
      then obtain b where "in_range (getCurrentValue a n + v)"
        and "assignAbility a n (getCurrentValue a n + v) = Some b"
        and "a' = b\<lparr>pointsPool := pointsPool a - v\<rparr>"
        unfolding AddToAbility_success by blast
      then show ?thesis
        using update_budget [OF assms, of n "getCurrentValue a n + v" b] Pair by simp
    next
      case (Some e)
      with Pair have "a' = a" by (simp add: AddToAbility_failure)
      then show ?thesis using Pair assms(2) by simp
    qed
  qed
  show "budget_kept (fst (SetAbility a n v))"
  proof (cases "SetAbility a n v")
    case (Pair a' err)
    show ?thesis
    proof (cases err)
      case None
      with Pair have "SetAbility a n v = (a', None)" by simp
      then obtain b where "in_range v"
        and "assignAbility a n v = Some b"
        and "a' = b\<lparr>pointsPool := pointsPool a - (v - getCurrentValue a n)\<rparr>"
        unfolding SetAbility_success by blast
      then show ?thesis
        using update_budget [OF assms, of n v b] Pair by simp
    next
      case (Some e)
      with Pair have "a' = a" by (simp add: SetAbility_failure)
      then show ?thesis using Pair assms(2) by simp
    qed
  qed
qed


text \<open>
  The zero value has no points and no attribute in range: every call of a mutator
  on it fails, and it stays what it is.
\<close>

lemma getCurrentValue_zero: "getCurrentValue zeroAbilities n = 0"
  by (simp add: getCurrentValue_def zeroAbilities_def)

lemma zero_not_ok: "\<not> abilities_ok zeroAbilities"
  by (simp add: abilities_ok_def in_range_def zeroAbilities_def)

lemma zero_stuck:
  "fst (AddToAbility zeroAbilities n v) = zeroAbilities"
  "fst (SetAbility zeroAbilities n v) = zeroAbilities"
proof -
  have pos: "in_range x \<Longrightarrow> 0 <s x" for x :: goint
    by (simp add: in_range_def word_sless_alt)
  have pool: "pointsPool zeroAbilities = 0"
    by (simp add: zeroAbilities_def)
  show "fst (AddToAbility zeroAbilities n v) = zeroAbilities"
  proof (cases "AddToAbility zeroAbilities n v")
    case (Pair a' err)
    show ?thesis
    proof (cases err)
      case None
      with Pair have "AddToAbility zeroAbilities n v = (a', None)" by simp
      then have "in_range v" and "\<not> (0 <s v \<and> 0 <s v)"
        unfolding AddToAbility_success getCurrentValue_zero pool by simp_all
      then show ?thesis using pos [of v] by simp
    next
      case (Some e)
      with Pair show ?thesis by (simp add: AddToAbility_failure)
    qed
  qed
  show "fst (SetAbility zeroAbilities n v) = zeroAbilities"
  proof (cases "SetAbility zeroAbilities n v")
    case (Pair a' err)
    show ?thesis
    proof (cases err)
      case None
      with Pair have "SetAbility zeroAbilities n v = (a', None)" by simp
      then have "in_range v" and "\<not> (0 <s v \<and> 0 <s v)"
        unfolding SetAbility_success getCurrentValue_zero pool by simp_all
      then show ?thesis using pos [of v] by simp
    next
      case (Some e)
      with Pair show ?thesis by (simp add: SetAbility_failure)
    qed
  qed
qed

text \<open>
  Every value of the type is the zero value or has its attributes in [1,10], a
  pool that is not negative, and the sum 35.
\<close>

lemma built_invariant:
  "built a \<Longrightarrow> a = zeroAbilities \<or> (abilities_ok a \<and> budget_kept a)"
proof (induction rule: built.induct)
  case zero
  show ?case by simp
next
  case default
  show ?case using constructors_budget(1) by simp
next
  case (validated s l c g p i a)
  then show ?case using constructors_budget(2) by blast
next
  case (adjusted a n v)
  from adjusted.IH show ?case
  proof
    assume "a = zeroAbilities"
    then show ?thesis by (simp add: zero_stuck)
  next
    assume h: "abilities_ok a \<and> budget_kept a"
    then have "sint (pointsPool a) \<le> 2 ^ 63 - 10"
      using budget_kept_bound [of a] by simp
    then show ?thesis
      using h AddToAbility_keeps_ok [of a n v] mutators_keep_budget [of a n v] by simp
  qed
next
  case (reset a n v)
  from reset.IH show ?case
  proof
    assume "a = zeroAbilities"
    then show ?thesis by (simp add: zero_stuck)
  next
    assume h: "abilities_ok a \<and> budget_kept a"
    then have "sint (pointsPool a) \<le> 2 ^ 63 - 10"
      using budget_kept_bound [of a] by simp
    then show ?thesis
      using h SetAbility_keeps_ok [of a n v] mutators_keep_budget [of a n v] by simp
  qed
qed

lemma built_pool: "built a \<Longrightarrow> 0 \<le> sint (pointsPool a) \<and> sint (pointsPool a) \<le> 29"
  using built_invariant [of a] budget_kept_bound [of a]
  by (auto simp: abilities_ok_def zeroAbilities_def)

text \<open>
  Claim C3. For every \<^verbatim>\<open>Abilities\<close> state with all six attributes in [1,10] and a
  pool that is not negative, and for every name and argument, \<^verbatim>\<open>AddToAbility\<close> and
  \<^verbatim>\<open>SetAbility\<close> leave every attribute in [1,10] and the pool not negative, whether
  they succeed or fail. The states are the values of the type, \<open>built\<close>; the state
  after the call is one of them again, so the invariant carries through any
  sequence of calls.
\<close>

theorem adjust_set_keep_invariant:
  assumes "built a" and "abilities_ok a"
  shows "abilities_ok (fst (AddToAbility a n v)) \<and> abilities_ok (fst (SetAbility a n v))
       \<and> built (fst (AddToAbility a n v)) \<and> built (fst (SetAbility a n v))"
proof -
  have "sint (pointsPool a) \<le> 29"
    using built_pool [OF assms(1)] by simp
  then have b: "sint (pointsPool a) \<le> 2 ^ 63 - 10" by simp
  have "abilities_ok (fst (AddToAbility a n v))"
    using assms(2) b by (rule AddToAbility_keeps_ok)
  moreover have "abilities_ok (fst (SetAbility a n v))"
    using assms(2) b by (rule SetAbility_keeps_ok)
  moreover have "built (fst (AddToAbility a n v))"
    using assms(1) by (rule built.adjusted)
  moreover have "built (fst (SetAbility a n v))"
    using assms(1) by (rule built.reset)
  ultimately show ?thesis by simp
qed

theorem adjust_set_keep_invariant_witness:
  "built NewDefaultAbilities \<and> abilities_ok NewDefaultAbilities
   \<and> AddToAbility NewDefaultAbilities ''luck'' 3
       = (NewDefaultAbilities\<lparr>luck := 8, pointsPool := 2\<rparr>, None)
   \<and> abilities_ok (NewDefaultAbilities\<lparr>luck := 8, pointsPool := 2\<rparr>)
   \<and> SetAbility NewDefaultAbilities ''luck'' 2
       = (NewDefaultAbilities\<lparr>luck := 2, pointsPool := 8\<rparr>, None)
   \<and> abilities_ok (NewDefaultAbilities\<lparr>luck := 2, pointsPool := 8\<rparr>)
   \<and> AddToAbility NewDefaultAbilities ''luck'' 6
       = (NewDefaultAbilities, Some (IncreaseAboveMaximum ''luck''))"
proof -
  have bl: "built NewDefaultAbilities" by (rule built.default)
  have ok: "abilities_ok NewDefaultAbilities"
    by (simp add: abilities_ok_def in_range_def NewDefaultAbilities_def
        DefaultAbilityValue_def AbilityPointBudget_def)
  have e1: "AddToAbility NewDefaultAbilities ''luck'' 3
       = (NewDefaultAbilities\<lparr>luck := 8, pointsPool := 2\<rparr>, None)"
    by (simp add: AddToAbility_def getCurrentValue_def assignAbility_def
      NewDefaultAbilities_def MinAbilityValue_def MaxAbilityValue_def DefaultAbilityValue_def
      AbilityPointBudget_def word_sless_alt)
  have e2: "SetAbility NewDefaultAbilities ''luck'' 2
       = (NewDefaultAbilities\<lparr>luck := 2, pointsPool := 8\<rparr>, None)"
    by (simp add: SetAbility_def getCurrentValue_def assignAbility_def
      NewDefaultAbilities_def MinAbilityValue_def MaxAbilityValue_def DefaultAbilityValue_def
      AbilityPointBudget_def word_sless_alt)
  have e3: "AddToAbility NewDefaultAbilities ''luck'' 6
       = (NewDefaultAbilities, Some (IncreaseAboveMaximum ''luck''))"
    by (simp add: AddToAbility_def getCurrentValue_def assignAbility_def
      NewDefaultAbilities_def MinAbilityValue_def MaxAbilityValue_def DefaultAbilityValue_def
      AbilityPointBudget_def word_sless_alt)
  have r1: "abilities_ok (NewDefaultAbilities\<lparr>luck := 8, pointsPool := 2\<rparr>)"
    using adjust_set_keep_invariant [OF bl ok, of "''luck''" 3] unfolding e1 by simp
  have r2: "abilities_ok (NewDefaultAbilities\<lparr>luck := 2, pointsPool := 8\<rparr>)"
    using adjust_set_keep_invariant [OF bl ok, of "''luck''" 2] unfolding e2 by simp
  from bl ok e1 r1 e2 r2 e3 show ?thesis
    by (intro conjI)
qed

text \<open>
  Why the theorem speaks of the values of the type: a record with the pool at the
  largest \<^verbatim>\<open>int\<close>, which is no value the package builds, would see the refund of a
  lowered attribute wrap around.
\<close>

lemma wrap_outside_built:
  "\<not> built \<lparr>pointsPool = 9223372036854775807, strength = 10, luck = 5, charisma = 5,
              agility = 5, perception = 5, intelligence = 5\<rparr>
   \<and> abilities_ok \<lparr>pointsPool = 9223372036854775807, strength = 10, luck = 5, charisma = 5,
                 agility = 5, perception = 5, intelligence = 5\<rparr>
   \<and> AddToAbility \<lparr>pointsPool = 9223372036854775807, strength = 10, luck = 5, charisma = 5,
                 agility = 5, perception = 5, intelligence = 5\<rparr> ''strength'' (- 9)
     = (\<lparr>pointsPool = - 9223372036854775800, strength = 1, luck = 5, charisma = 5,
                 agility = 5, perception = 5, intelligence = 5\<rparr>, None)
   \<and> \<not> abilities_ok \<lparr>pointsPool = - 9223372036854775800, strength = 1, luck = 5, charisma = 5,
                 agility = 5, perception = 5, intelligence = 5\<rparr>"
proof -
  have "\<not> built \<lparr>pointsPool = 9223372036854775807, strength = 10, luck = 5, charisma = 5,
              agility = 5, perception = 5, intelligence = 5\<rparr>"
    using built_pool [of "\<lparr>pointsPool = 9223372036854775807, strength = 10, luck = 5,
              charisma = 5, agility = 5, perception = 5, intelligence = 5\<rparr>"]
    by auto
  then show ?thesis
    by (simp add: AddToAbility_def getCurrentValue_def assignAbility_def
      abilities_ok_def in_range_def MinAbilityValue_def MaxAbilityValue_def
      DefaultAbilityValue_def word_sless_alt)
qed


text \<open>
  For a name that is none of the six, \<^verbatim>\<open>getCurrentValue\<close> yields 0 and the range
  and budget checks run on \<open>0 + value\<close> before the second switch reaches its
  default case: the call always fails and leaves the receiver unchanged, but the
  error is the "unknown ability" one only when \<open>1 \<le> value \<le> 10\<close> and the pool
  covers \<open>value\<close>.
\<close>

lemma unrecognized_outcome:
  assumes "\<not> recognized n"
  shows "AddToAbility a n v =
     (a, Some (if v <s 1 then DecreaseBelowMinimum n
               else if 10 <s v then IncreaseAboveMaximum n
               else if pointsPool a <s v then InsufficientPoints v (pointsPool a)
               else UnknownAbility n))"
proof -
  have cur: "getCurrentValue a n = 0"
    using assms by (auto simp: getCurrentValue_def recognized_def)
  have asg: "assignAbility a n v = None"
    using assms by (simp add: assignAbility_None)
  have pos: "\<not> v <s 1 \<Longrightarrow> 0 <s v"
    by (simp add: word_sless_alt)
  show ?thesis
    unfolding AddToAbility_def Let_def cost_delta cur
    using asg pos by (simp add: MinAbilityValue_def MaxAbilityValue_def)
qed

text \<open>
  Claim C2 says that \<^verbatim>\<open>AddToAbility\<close> with a name that is not one of the six fails
  with the unknown-attribute error for every delta. On the default abilities and
  the name "foo", the source returns "cannot decrease foo below minimum (1)" for
  delta 0, "cannot increase foo above maximum (10)" for delta 11 and
  "insufficient points in pool: need 6, have 5" for delta 6; only a delta such as 3
  reaches "unknown ability: foo".
\<close>

theorem AddToAbility_unknown_name_range_error:
  "\<not> recognized ''foo'' \<and>
   AddToAbility NewDefaultAbilities ''foo'' 0
     = (NewDefaultAbilities, Some (DecreaseBelowMinimum ''foo'')) \<and>
   AddToAbility NewDefaultAbilities ''foo'' 11
     = (NewDefaultAbilities, Some (IncreaseAboveMaximum ''foo'')) \<and>
   AddToAbility NewDefaultAbilities ''foo'' 6
     = (NewDefaultAbilities, Some (InsufficientPoints 6 5)) \<and>
   AddToAbility NewDefaultAbilities ''foo'' 3
     = (NewDefaultAbilities, Some (UnknownAbility ''foo''))"
  by (simp add: AddToAbility_def getCurrentValue_def assignAbility_def recognized_def
      NewDefaultAbilities_def MinAbilityValue_def MaxAbilityValue_def DefaultAbilityValue_def
      AbilityPointBudget_def word_sless_alt)

lemma getCurrentValue_pool: "getCurrentValue (b\<lparr>pointsPool := p\<rparr>) n = getCurrentValue b n"
  by (simp add: getCurrentValue_def)

lemma assign_back:
  assumes "assignAbility a n x = Some b"
    and "assignAbility (b\<lparr>pointsPool := p\<rparr>) n (getCurrentValue a n) = Some c"
  shows "c\<lparr>pointsPool := pointsPool a\<rparr> = a"
  using assms
  by (auto simp: assignAbility_def getCurrentValue_def split: if_splits)

text \<open>
  Claim C4. For every state, every recognised name and every \<open>d\<close>: if
  \<^verbatim>\<open>AddToAbility\<close> with \<open>+d\<close> succeeds and \<^verbatim>\<open>AddToAbility\<close> with \<open>-d\<close> on the same
  attribute then succeeds, the attribute and the pool (indeed the whole state)
  are what they were before the two calls.
\<close>

theorem adjust_round_trip:
  assumes "recognized n"
    and "AddToAbility a n d = (a1, None)"
    and "AddToAbility a1 n (- d) = (a2, None)"
  shows "getCurrentValue a2 n = getCurrentValue a n \<and> pointsPool a2 = pointsPool a \<and> a2 = a"
proof -
  from assms(2) obtain b where b: "assignAbility a n (getCurrentValue a n + d) = Some b"
    and a1: "a1 = b\<lparr>pointsPool := pointsPool a - d\<rparr>"
    unfolding AddToAbility_success by blast
  have cur1: "getCurrentValue a1 n = getCurrentValue a n + d"
    using assignAbility_Some [OF b] unfolding a1
    by (simp add: getCurrentValue_pool)
  have pool1: "pointsPool a1 = pointsPool a - d"
    unfolding a1 by simp
  from assms(3) obtain c where c: "assignAbility a1 n (getCurrentValue a1 n + - d) = Some c"
    and a2: "a2 = c\<lparr>pointsPool := pointsPool a1 - (- d)\<rparr>"
    unfolding AddToAbility_success by blast
  have "assignAbility (b\<lparr>pointsPool := pointsPool a - d\<rparr>) n (getCurrentValue a n) = Some c"
    using c cur1 unfolding a1 by simp
  then have "c\<lparr>pointsPool := pointsPool a\<rparr> = a"
    using b by (rule assign_back [rotated])
  moreover have "pointsPool a1 - (- d) = pointsPool a"
    unfolding pool1 by simp
  ultimately have "a2 = a" unfolding a2 by simp
  then show ?thesis by simp
qed

theorem adjust_round_trip_witness:
  "recognized ''luck''
   \<and> AddToAbility NewDefaultAbilities ''luck'' 3
        = (NewDefaultAbilities\<lparr>luck := 8, pointsPool := 2\<rparr>, None)
   \<and> AddToAbility (NewDefaultAbilities\<lparr>luck := 8, pointsPool := 2\<rparr>) ''luck'' (- 3)
        = (NewDefaultAbilities, None)"
proof -
  have r: "recognized ''luck''" by (simp add: recognized_def)
  have e1: "AddToAbility NewDefaultAbilities ''luck'' 3
        = (NewDefaultAbilities\<lparr>luck := 8, pointsPool := 2\<rparr>, None)"
    by (simp add: AddToAbility_def getCurrentValue_def assignAbility_def
      NewDefaultAbilities_def MinAbilityValue_def MaxAbilityValue_def DefaultAbilityValue_def
      AbilityPointBudget_def word_sless_alt)
  have e2: "\<exists>a2. AddToAbility (NewDefaultAbilities\<lparr>luck := 8, pointsPool := 2\<rparr>) ''luck'' (- 3)
        = (a2, None)"
    by (simp add: AddToAbility_def getCurrentValue_def assignAbility_def
      NewDefaultAbilities_def MinAbilityValue_def MaxAbilityValue_def DefaultAbilityValue_def
      AbilityPointBudget_def word_sless_alt)
  then obtain a2 where e2': "AddToAbility (NewDefaultAbilities\<lparr>luck := 8, pointsPool := 2\<rparr>) ''luck'' (- 3)
        = (a2, None)" ..
  have "a2 = NewDefaultAbilities"
    using adjust_round_trip [OF r e1 e2'] by simp
  then show ?thesis using r e1 e2' by simp
qed

section \<open>Stacking and removing items\<close>

text \<open>
  The contracts below describe an inventory either as one without a matching item
  or by the first matching item and the items before and after it. Every list is
  of one of the two forms.
\<close>

lemma first_match_exhaustive:
  "(\<forall>x \<in> set xs. \<not> P x)
   \<or> (\<exists>pre it post. xs = pre @ it # post \<and> (\<forall>x \<in> set pre. \<not> P x) \<and> P it)"
proof (cases "\<exists>x \<in> set xs. P x")
  case True
  then show ?thesis by (auto simp: split_list_first_prop_iff)
next
  case False
  then show ?thesis by simp
qed


lemma AddItem_loop_None:
  "AddItem_loop xs item = None \<longleftrightarrow>
     (\<forall>x \<in> set xs. \<not> (Name x = Name item \<and> condition x = condition item))"
  by (induction xs) auto

lemma AddItem_loop_first:
  assumes "\<forall>x \<in> set pre. \<not> (Name x = Name item \<and> condition x = condition item)"
    and "Name it = Name item" "condition it = condition item"
  shows "AddItem_loop (pre @ it # post) item
           = Some (pre @ it\<lparr>quantity := quantity it + quantity item\<rparr> # post)"
  using assms by (induction pre) auto

text \<open>
  Claim C5. For every inventory and item: when an entry with the item's name and
  condition exists, \<^verbatim>\<open>AddItem\<close> adds the item's quantity to the first such entry
  and the inventory keeps its length (one entry, not two); when none exists, the
  item is appended at the end and the entries before it keep their order. Hence
  adding two items with the same name and condition to an inventory without such
  an entry yields one entry whose quantity is the sum of the two.
\<close>

theorem AddItem_contract:
  "(Items inv' = pre @ it # post
      \<and> (\<forall>x \<in> set pre. \<not> (Name x = Name item \<and> condition x = condition item))
      \<and> Name it = Name item \<and> condition it = condition item
    \<longrightarrow> AddItem inv' item
          = inv'\<lparr>Items := pre @ it\<lparr>quantity := quantity it + quantity item\<rparr> # post\<rparr>
        \<and> length (Items (AddItem inv' item)) = length (Items inv'))
   \<and> ((\<forall>x \<in> set (Items inv'). \<not> (Name x = Name item \<and> condition x = condition item))
    \<longrightarrow> AddItem inv' item = inv'\<lparr>Items := Items inv' @ [item]\<rparr>)
   \<and> ((\<forall>x \<in> set (Items inv'). \<not> (Name x = Name item \<and> condition x = condition item))
      \<and> Name item2 = Name item \<and> condition item2 = condition item
    \<longrightarrow> AddItem (AddItem inv' item) item2
          = inv'\<lparr>Items := Items inv' @ [item\<lparr>quantity := quantity item + quantity item2\<rparr>]\<rparr>)"
proof (intro conjI impI)
  assume h: "Items inv' = pre @ it # post
      \<and> (\<forall>x \<in> set pre. \<not> (Name x = Name item \<and> condition x = condition item))
      \<and> Name it = Name item \<and> condition it = condition item"
  then have "AddItem_loop (Items inv') item
           = Some (pre @ it\<lparr>quantity := quantity it + quantity item\<rparr> # post)"
    using AddItem_loop_first [of pre item it post] by simp
  then show e: "AddItem inv' item
          = inv'\<lparr>Items := pre @ it\<lparr>quantity := quantity it + quantity item\<rparr> # post\<rparr>"
    by (simp add: AddItem_def)
  show "length (Items (AddItem inv' item)) = length (Items inv')"
    unfolding e using h by simp
next
  assume "\<forall>x \<in> set (Items inv'). \<not> (Name x = Name item \<and> condition x = condition item)"
  then have "AddItem_loop (Items inv') item = None"
    by (simp only: AddItem_loop_None)
  then show "AddItem inv' item = inv'\<lparr>Items := Items inv' @ [item]\<rparr>"
    by (simp add: AddItem_def)
next
  assume h: "(\<forall>x \<in> set (Items inv'). \<not> (Name x = Name item \<and> condition x = condition item))
      \<and> Name item2 = Name item \<and> condition item2 = condition item"
  then have "AddItem_loop (Items inv') item = None"
    by (simp add: AddItem_loop_None)
  then have e1: "AddItem inv' item = inv'\<lparr>Items := Items inv' @ [item]\<rparr>"
    by (simp add: AddItem_def)
  have "AddItem_loop (Items inv' @ item # []) item2
           = Some (Items inv' @ item\<lparr>quantity := quantity item + quantity item2\<rparr> # [])"
    using h by (intro AddItem_loop_first) simp_all
  then show "AddItem (AddItem inv' item) item2
          = inv'\<lparr>Items := Items inv' @ [item\<lparr>quantity := quantity item + quantity item2\<rparr>]\<rparr>"
    unfolding e1 by (simp add: AddItem_def)
qed

theorem AddItem_contract_witness:
  "AddItem \<lparr>Items = [\<lparr>Name = ''Potion'', quantity = 2, abilities = None, condition = ''New'',
                        description = ''heals''\<rparr>,
                      \<lparr>Name = ''Sword'', quantity = 1, abilities = None, condition = ''New'',
                        description = ''''\<rparr>]\<rparr>
           \<lparr>Name = ''Sword'', quantity = 2, abilities = None, condition = ''New'',
             description = ''second''\<rparr>
     = \<lparr>Items = [\<lparr>Name = ''Potion'', quantity = 2, abilities = None, condition = ''New'',
                   description = ''heals''\<rparr>,
                 \<lparr>Name = ''Sword'', quantity = 3, abilities = None, condition = ''New'',
                   description = ''''\<rparr>]\<rparr>
   \<and> AddItem (AddItem \<lparr>Items = [\<lparr>Name = ''Potion'', quantity = 2, abilities = None,
                                  condition = ''New'', description = ''heals''\<rparr>]\<rparr>
                 \<lparr>Name = ''Sword'', quantity = 1, abilities = None, condition = ''New'',
                   description = ''''\<rparr>)
           \<lparr>Name = ''Sword'', quantity = 2, abilities = None, condition = ''New'',
             description = ''second''\<rparr>
     = \<lparr>Items = [\<lparr>Name = ''Potion'', quantity = 2, abilities = None, condition = ''New'',
                   description = ''heals''\<rparr>,
                 \<lparr>Name = ''Sword'', quantity = 3, abilities = None, condition = ''New'',
                   description = ''''\<rparr>]\<rparr>
   \<and> AddItem \<lparr>Items = [\<lparr>Name = ''Potion'', quantity = 2, abilities = None,
                                  condition = ''New'', description = ''heals''\<rparr>]\<rparr>
               \<lparr>Name = ''Potion'', quantity = 1, abilities = None, condition = ''Used'',
                   description = ''''\<rparr>
     = \<lparr>Items = [\<lparr>Name = ''Potion'', quantity = 2, abilities = None, condition = ''New'',
                   description = ''heals''\<rparr>,
                 \<lparr>Name = ''Potion'', quantity = 1, abilities = None, condition = ''Used'',
                   description = ''''\<rparr>]\<rparr>"
  using
    AddItem_contract [of
      "\<lparr>Items = [\<lparr>Name = ''Potion'', quantity = 2, abilities = None, condition = ''New'',
                        description = ''heals''\<rparr>,
                      \<lparr>Name = ''Sword'', quantity = 1, abilities = None, condition = ''New'',
                        description = ''''\<rparr>]\<rparr>"
      "[\<lparr>Name = ''Potion'', quantity = 2, abilities = None, condition = ''New'',
                        description = ''heals''\<rparr>]"
      "\<lparr>Name = ''Sword'', quantity = 1, abilities = None, condition = ''New'',
                        description = ''''\<rparr>"
      "[]"
      "\<lparr>Name = ''Sword'', quantity = 2, abilities = None, condition = ''New'',
             description = ''second''\<rparr>"]
    AddItem_contract [of
      "\<lparr>Items = [\<lparr>Name = ''Potion'', quantity = 2, abilities = None, condition = ''New'',
                        description = ''heals''\<rparr>]\<rparr>"
      _ _ _
      "\<lparr>Name = ''Sword'', quantity = 1, abilities = None, condition = ''New'',
                        description = ''''\<rparr>"
      "\<lparr>Name = ''Sword'', quantity = 2, abilities = None, condition = ''New'',
             description = ''second''\<rparr>"]
    AddItem_contract [of
      "\<lparr>Items = [\<lparr>Name = ''Potion'', quantity = 2, abilities = None, condition = ''New'',
                        description = ''heals''\<rparr>]\<rparr>"
      _ _ _
      "\<lparr>Name = ''Potion'', quantity = 1, abilities = None, condition = ''Used'',
                   description = ''''\<rparr>"]
  by simp

lemma RemoveItem_loop_absent:
  "\<forall>x \<in> set xs. Name x \<noteq> nm \<Longrightarrow> RemoveItem_loop xs nm q = (xs, Some (ItemNotFound nm))"
  by (induction xs) auto

lemma RemoveItem_loop_first:
  assumes "\<forall>x \<in> set pre. Name x \<noteq> nm" and "Name it = nm"
  shows "RemoveItem_loop (pre @ it # post) nm q =
     (if quantity it <s q
      then (pre @ it # post, Some (InsufficientQuantity (quantity it) q))
      else if quantity it - q = 0 then (pre @ post, None)
      else (pre @ it\<lparr>quantity := quantity it - q\<rparr> # post, None))"
  using assms by (induction pre) (auto simp: Let_def)

text \<open>
  Claim C6. For every inventory, name and quantity: \<^verbatim>\<open>RemoveItem\<close> fails with "not
  found" when no item has the name; at the first item with the name it fails with
  "insufficient quantity", the inventory unchanged, when the item's quantity is
  less than the requested one; otherwise it lowers that item's quantity by exactly
  the requested amount, and deletes the entry when the quantity reaches zero
  (the two are equal).
\<close>

theorem RemoveItem_contract:
  "((\<forall>x \<in> set (Items inv'). Name x \<noteq> nm)
      \<longrightarrow> RemoveItem inv' nm q = (inv', Some (ItemNotFound nm)))
   \<and> (Items inv' = pre @ it # post \<and> (\<forall>x \<in> set pre. Name x \<noteq> nm) \<and> Name it = nm
      \<longrightarrow> RemoveItem inv' nm q =
           (if quantity it <s q
            then (inv', Some (InsufficientQuantity (quantity it) q))
            else if quantity it = q then (inv'\<lparr>Items := pre @ post\<rparr>, None)
            else (inv'\<lparr>Items := pre @ it\<lparr>quantity := quantity it - q\<rparr> # post\<rparr>, None)))"
proof (intro conjI impI)
  assume "\<forall>x \<in> set (Items inv'). Name x \<noteq> nm"
  then show "RemoveItem inv' nm q = (inv', Some (ItemNotFound nm))"
    by (simp add: RemoveItem_def RemoveItem_loop_absent)
next
  assume h: "Items inv' = pre @ it # post \<and> (\<forall>x \<in> set pre. Name x \<noteq> nm) \<and> Name it = nm"
  then have "RemoveItem_loop (Items inv') nm q =
     (if quantity it <s q
      then (pre @ it # post, Some (InsufficientQuantity (quantity it) q))
      else if quantity it - q = 0 then (pre @ post, None)
      else (pre @ it\<lparr>quantity := quantity it - q\<rparr> # post, None))"
    using RemoveItem_loop_first [of pre nm it post q] by simp
  moreover have "inv'\<lparr>Items := pre @ it # post\<rparr> = inv'"
    using h by simp
  ultimately show "RemoveItem inv' nm q =
           (if quantity it <s q
            then (inv', Some (InsufficientQuantity (quantity it) q))
            else if quantity it = q then (inv'\<lparr>Items := pre @ post\<rparr>, None)
            else (inv'\<lparr>Items := pre @ it\<lparr>quantity := quantity it - q\<rparr> # post\<rparr>, None))"
    by (simp add: RemoveItem_def)
qed

theorem RemoveItem_contract_witness:
  "RemoveItem \<lparr>Items = [\<lparr>Name = ''Potion'', quantity = 2, abilities = None, condition = ''New'',
                          description = ''heals''\<rparr>,
                        \<lparr>Name = ''Sword'', quantity = 3, abilities = None, condition = ''New'',
                          description = ''''\<rparr>]\<rparr> ''Axe'' 1
     = (\<lparr>Items = [\<lparr>Name = ''Potion'', quantity = 2, abilities = None, condition = ''New'',
                          description = ''heals''\<rparr>,
                        \<lparr>Name = ''Sword'', quantity = 3, abilities = None, condition = ''New'',
                          description = ''''\<rparr>]\<rparr>, Some (ItemNotFound ''Axe''))
   \<and> RemoveItem \<lparr>Items = [\<lparr>Name = ''Potion'', quantity = 2, abilities = None, condition = ''New'',
                          description = ''heals''\<rparr>,
                        \<lparr>Name = ''Sword'', quantity = 3, abilities = None, condition = ''New'',
                          description = ''''\<rparr>]\<rparr> ''Sword'' 5
     = (\<lparr>Items = [\<lparr>Name = ''Potion'', quantity = 2, abilities = None, condition = ''New'',
                          description = ''heals''\<rparr>,
                        \<lparr>Name = ''Sword'', quantity = 3, abilities = None, condition = ''New'',
                          description = ''''\<rparr>]\<rparr>, Some (InsufficientQuantity 3 5))
   \<and> RemoveItem \<lparr>Items = [\<lparr>Name = ''Potion'', quantity = 2, abilities = None, condition = ''New'',
                          description = ''heals''\<rparr>,
                        \<lparr>Name = ''Sword'', quantity = 3, abilities = None, condition = ''New'',
                          description = ''''\<rparr>]\<rparr> ''Sword'' 1
     = (\<lparr>Items = [\<lparr>Name = ''Potion'', quantity = 2, abilities = None, condition = ''New'',
                          description = ''heals''\<rparr>,
                        \<lparr>Name = ''Sword'', quantity = 2, abilities = None, condition = ''New'',
                          description = ''''\<rparr>]\<rparr>, None)
   \<and> RemoveItem \<lparr>Items = [\<lparr>Name = ''Potion'', quantity = 2, abilities = None, condition = ''New'',
                          description = ''heals''\<rparr>,
                        \<lparr>Name = ''Sword'', quantity = 3, abilities = None, condition = ''New'',
                          description = ''''\<rparr>]\<rparr> ''Sword'' 3
     = (\<lparr>Items = [\<lparr>Name = ''Potion'', quantity = 2, abilities = None, condition = ''New'',
                          description = ''heals''\<rparr>]\<rparr>, None)"
  using
    RemoveItem_contract [of
      "\<lparr>Items = [\<lparr>Name = ''Potion'', quantity = 2, abilities = None, condition = ''New'',
                          description = ''heals''\<rparr>,
                        \<lparr>Name = ''Sword'', quantity = 3, abilities = None, condition = ''New'',
                          description = ''''\<rparr>]\<rparr>"
      "''Axe''" 1]
    RemoveItem_contract [of
      "\<lparr>Items = [\<lparr>Name = ''Potion'', quantity = 2, abilities = None, condition = ''New'',
                          description = ''heals''\<rparr>,
                        \<lparr>Name = ''Sword'', quantity = 3, abilities = None, condition = ''New'',
                          description = ''''\<rparr>]\<rparr>"
      "''Sword''" 5
      "[\<lparr>Name = ''Potion'', quantity = 2, abilities = None, condition = ''New'',
                          description = ''heals''\<rparr>]"
      "\<lparr>Name = ''Sword'', quantity = 3, abilities = None, condition = ''New'',
                          description = ''''\<rparr>"
      "[]"]
    RemoveItem_contract [of
      "\<lparr>Items = [\<lparr>Name = ''Potion'', quantity = 2, abilities = None, condition = ''New'',
                          description = ''heals''\<rparr>,
                        \<lparr>Name = ''Sword'', quantity = 3, abilities = None, condition = ''New'',
                          description = ''''\<rparr>]\<rparr>"
      "''Sword''" 1
      "[\<lparr>Name = ''Potion'', quantity = 2, abilities = None, condition = ''New'',
                          description = ''heals''\<rparr>]"
      "\<lparr>Name = ''Sword'', quantity = 3, abilities = None, condition = ''New'',
                          description = ''''\<rparr>"
      "[]"]
    RemoveItem_contract [of
      "\<lparr>Items = [\<lparr>Name = ''Potion'', quantity = 2, abilities = None, condition = ''New'',
                          description = ''heals''\<rparr>,
                        \<lparr>Name = ''Sword'', quantity = 3, abilities = None, condition = ''New'',
                          description = ''''\<rparr>]\<rparr>"
      "''Sword''" 3
      "[\<lparr>Name = ''Potion'', quantity = 2, abilities = None, condition = ''New'',
                          description = ''heals''\<rparr>]"
      "\<lparr>Name = ''Sword'', quantity = 3, abilities = None, condition = ''New'',
                          description = ''''\<rparr>"
      "[]"]
  by (simp add: word_sless_alt)

section \<open>Changing the fields of an item\<close>

lemma GetItem_loop_None: "GetItem_loop xs nm = None \<longleftrightarrow> (\<forall>x \<in> set xs. Name x \<noteq> nm)"
  by (induction xs) auto

lemma GetItem_loop_first:
  "\<forall>x \<in> set pre. Name x \<noteq> nm \<Longrightarrow> Name it = nm
     \<Longrightarrow> GetItem_loop (pre @ it # post) nm = Some (length pre)"
  by (induction pre) auto

text \<open>One round of the loop, by the field it reads.\<close>

lemma loop_name:
  "ChangeItem_loop it (''name'' # fs) v =
     ChangeItem_loop (case v of VString s \<Rightarrow> Item_SetName it s | _ \<Rightarrow> it) fs v"
  by simp

lemma loop_quantity:
  "ChangeItem_loop it (''quantity'' # fs) v =
     ChangeItem_loop (case v of VInt k \<Rightarrow> Item_SetQuantity it k | _ \<Rightarrow> it) fs v"
  by simp

lemma loop_condition:
  "ChangeItem_loop it (''condition'' # fs) v =
     ChangeItem_loop (case v of VCondition c \<Rightarrow> Item_SetCondition it c | _ \<Rightarrow> it) fs v"
  by simp

lemma loop_description:
  "ChangeItem_loop it (''description'' # fs) v =
     ChangeItem_loop (case v of VString s \<Rightarrow> Item_SetDescription it s | _ \<Rightarrow> it) fs v"
  by simp

lemma loop_abilities:
  "ChangeItem_loop it (''abilities'' # fs) v =
     ChangeItem_loop (case v of VAbilities a \<Rightarrow> Item_SetAbilities it a | _ \<Rightarrow> it) fs v"
  by simp

lemma loop_unknown:
  "f \<notin> {''name'', ''quantity'', ''condition'', ''description'', ''abilities''}
     \<Longrightarrow> ChangeItem_loop it (f # fs) v = (it, False)"
  by simp

lemmas loop_round = loop_name loop_quantity loop_condition loop_description loop_abilities
lemmas setters = Item_SetName_def Item_SetQuantity_def Item_SetCondition_def
  Item_SetDescription_def Item_SetAbilities_def

text \<open>
  The account of the specification takes one more listed field the way one round
  of the loop does.
\<close>

lemma spec_name:
  "spec_changed_item (case v of VString s \<Rightarrow> Item_SetName it s | _ \<Rightarrow> it) fs v
     = spec_changed_item it (''name'' # fs) v"
  by (cases v) (simp_all add: spec_changed_item_def setters)

lemma spec_quantity:
  "spec_changed_item (case v of VInt k \<Rightarrow> Item_SetQuantity it k | _ \<Rightarrow> it) fs v
     = spec_changed_item it (''quantity'' # fs) v"
  by (cases v) (simp_all add: spec_changed_item_def setters)

lemma spec_condition:
  "spec_changed_item (case v of VCondition c \<Rightarrow> Item_SetCondition it c | _ \<Rightarrow> it) fs v
     = spec_changed_item it (''condition'' # fs) v"
  by (cases v) (simp_all add: spec_changed_item_def setters)

lemma spec_description:
  "spec_changed_item (case v of VString s \<Rightarrow> Item_SetDescription it s | _ \<Rightarrow> it) fs v
     = spec_changed_item it (''description'' # fs) v"
  by (cases v) (simp_all add: spec_changed_item_def setters)

lemma spec_abilities:
  "spec_changed_item (case v of VAbilities a \<Rightarrow> Item_SetAbilities it a | _ \<Rightarrow> it) fs v
     = spec_changed_item it (''abilities'' # fs) v"
  by (cases v) (simp_all add: spec_changed_item_def setters)

lemmas spec_round = spec_name spec_quantity spec_condition spec_description spec_abilities

lemma spec_changed_item_Nil: "spec_changed_item it [] v = it"
  by (cases v) (simp_all add: spec_changed_item_def)

lemma ChangeItem_loop_known:
  "set fs \<subseteq> field_names \<Longrightarrow> ChangeItem_loop it fs v = (spec_changed_item it fs v, True)"
proof (induction fs arbitrary: it)
  case Nil
  show ?case by (simp add: spec_changed_item_Nil)
next
  case (Cons f fs)
  then have IH: "\<And>it. ChangeItem_loop it fs v = (spec_changed_item it fs v, True)"
    by simp
  from Cons.prems have "f = ''name'' \<or> f = ''quantity'' \<or> f = ''condition''
      \<or> f = ''description'' \<or> f = ''abilities''"
    by (simp add: field_names_def)
  then show ?case
    by (elim disjE) (simp_all only: loop_round IH spec_round)
qed


lemma ChangeItem_loop_append:
  "ChangeItem_loop it (fs @ gs) v =
     (case ChangeItem_loop it fs v of
        (it', True) \<Rightarrow> ChangeItem_loop it' gs v
      | (it', False) \<Rightarrow> (it', False))"
proof (induction fs arbitrary: it)
  case Nil
  then show ?case by simp
next
  case (Cons f fs)
  show ?case
  proof (cases "f \<in> field_names")
    case True
    then have "f = ''name'' \<or> f = ''quantity'' \<or> f = ''condition''
      \<or> f = ''description'' \<or> f = ''abilities''" by (simp add: field_names_def)
    then show ?thesis
      by (elim disjE) (simp_all only: append_Cons loop_round Cons.IH)
  next
    case False
    then have "f \<notin> {''name'', ''quantity'', ''condition'', ''description'', ''abilities''}"
      by (simp add: field_names_def)
    then show ?thesis
      by (simp only: append_Cons loop_unknown) simp
  qed
qed

lemma ChangeItem_loop_stops:
  assumes "set good \<subseteq> field_names" "bad \<notin> field_names"
  shows "ChangeItem_loop it (good @ bad # rest) v = (spec_changed_item it good v, False)"
proof -
  from assms(2) have "bad \<notin> {''name'', ''quantity'', ''condition'', ''description'', ''abilities''}"
    by (simp add: field_names_def)
  then have "ChangeItem_loop x (bad # rest) v = (x, False)" for x
    by (rule loop_unknown)
  then show ?thesis
    unfolding ChangeItem_loop_append ChangeItem_loop_known [OF assms(1)]
    by (simp del: ChangeItem_loop.simps)
qed

lemma first_unknown:
  assumes "\<not> set fs \<subseteq> field_names"
  shows "\<exists>good bad rest. fs = good @ bad # rest \<and> set good \<subseteq> field_names
            \<and> bad \<notin> field_names"
proof -
  from assms obtain x where "x \<in> set fs" "x \<notin> field_names" by blast
  then have "\<exists>x \<in> set fs. x \<notin> field_names" by blast
  then obtain good bad rest where "fs = good @ bad # rest" "bad \<notin> field_names"
      "\<forall>y \<in> set good. \<not> y \<notin> field_names"
    by (auto simp: split_list_first_prop_iff)
  then show ?thesis by blast
qed

lemma ChangeItem_found:
  assumes "Items inv' = pre @ it # post" "\<forall>x \<in> set pre. Name x \<noteq> nm" "Name it = nm"
  shows "ChangeItem inv' nm fs v =
     (inv'\<lparr>Items := pre @ fst (ChangeItem_loop it fs v) # post\<rparr>,
      if snd (ChangeItem_loop it fs v) then Some (length pre) else None)"
proof -
  have "GetItem inv' nm = Some (length pre)"
    unfolding GetItem_def assms(1) using assms(2,3) by (rule GetItem_loop_first)
  then show ?thesis
    unfolding ChangeItem_def assms(1) by (simp add: split_beta)
qed

lemma ChangeItem_not_found:
  assumes "\<forall>x \<in> set (Items inv'). Name x \<noteq> nm"
  shows "ChangeItem inv' nm fs v = (inv', None)"
proof -
  have "GetItem inv' nm = None"
    unfolding GetItem_def using assms by (simp add: GetItem_loop_None)
  then show ?thesis
    by (simp add: ChangeItem_def)
qed

text \<open>
  What \<^verbatim>\<open>ChangeItem\<close> does when the inventory holds an item with the name. With
  every field of the list one of the five, it returns the first such item, changed
  in exactly the listed fields whose type is the type of the value; the other
  fields, listed or not, keep their values. With an unrecognised field in the
  list it returns \<^verbatim>\<open>nil\<close>, and by then the fields listed before the first
  unrecognised one are assigned; the later ones are not.
\<close>

lemma ChangeItem_outcome:
  "(Items inv' = pre @ it # post \<and> (\<forall>x \<in> set pre. Name x \<noteq> nm) \<and> Name it = nm
      \<and> set fs \<subseteq> field_names
    \<longrightarrow> ChangeItem inv' nm fs v
          = (inv'\<lparr>Items := pre @ spec_changed_item it fs v # post\<rparr>, Some (length pre)))
   \<and> (\<not> set fs \<subseteq> field_names \<longrightarrow> snd (ChangeItem inv' nm fs v) = None)
   \<and> (Items inv' = pre @ it # post \<and> (\<forall>x \<in> set pre. Name x \<noteq> nm) \<and> Name it = nm
      \<and> set good \<subseteq> field_names \<and> bad \<notin> field_names
    \<longrightarrow> ChangeItem inv' nm (good @ bad # rest) v
          = (inv'\<lparr>Items := pre @ spec_changed_item it good v # post\<rparr>, None))"
proof (intro conjI impI)
  assume "Items inv' = pre @ it # post \<and> (\<forall>x \<in> set pre. Name x \<noteq> nm) \<and> Name it = nm
      \<and> set fs \<subseteq> field_names"
  then show "ChangeItem inv' nm fs v
          = (inv'\<lparr>Items := pre @ spec_changed_item it fs v # post\<rparr>, Some (length pre))"
    by (simp add: ChangeItem_found [of inv' pre it post nm] ChangeItem_loop_known)
next
  assume "\<not> set fs \<subseteq> field_names"
  then obtain good bad rest where fs: "fs = good @ bad # rest"
    and g: "set good \<subseteq> field_names" and b: "bad \<notin> field_names"
    using first_unknown by blast
  have "\<And>x. snd (ChangeItem_loop x fs v) = False"
    unfolding fs ChangeItem_loop_stops [OF g b] by simp
  then show "snd (ChangeItem inv' nm fs v) = None"
    by (simp add: ChangeItem_def split_beta split: option.splits)
next
  assume "Items inv' = pre @ it # post \<and> (\<forall>x \<in> set pre. Name x \<noteq> nm) \<and> Name it = nm
      \<and> set good \<subseteq> field_names \<and> bad \<notin> field_names"
  then show "ChangeItem inv' nm (good @ bad # rest) v
          = (inv'\<lparr>Items := pre @ spec_changed_item it good v # post\<rparr>, None)"
    by (simp add: ChangeItem_found [of inv' pre it post nm] ChangeItem_loop_stops)
qed

text \<open>
  Claim C7 says that a field list with an unrecognised field name aborts the whole
  call with the semantics of an item that is not found. The call for an item that
  is not found returns \<^verbatim>\<open>nil\<close> and leaves the inventory as it was, and so does a
  list whose first field is unrecognised. On the list quantity, weight and the
  value 7 the source returns \<^verbatim>\<open>nil\<close> too, but only after it has set the quantity
  of the sword to 7: the \<^verbatim>\<open>return nil\<close> of the default case sits inside the loop
  that assigns the fields.
\<close>

theorem ChangeItem_unknown_field_partial:
  "ChangeItem \<lparr>Items = [\<lparr>Name = ''Potion'', quantity = 2, abilities = None, condition = ''New'',
                          description = ''heals''\<rparr>,
                        \<lparr>Name = ''Sword'', quantity = 3, abilities = None, condition = ''New'',
                          description = ''''\<rparr>]\<rparr> ''Axe'' [''quantity'', ''weight''] (VInt 7)
     = (\<lparr>Items = [\<lparr>Name = ''Potion'', quantity = 2, abilities = None, condition = ''New'',
                          description = ''heals''\<rparr>,
                        \<lparr>Name = ''Sword'', quantity = 3, abilities = None, condition = ''New'',
                          description = ''''\<rparr>]\<rparr>, None)
   \<and> ChangeItem \<lparr>Items = [\<lparr>Name = ''Potion'', quantity = 2, abilities = None, condition = ''New'',
                          description = ''heals''\<rparr>,
                        \<lparr>Name = ''Sword'', quantity = 3, abilities = None, condition = ''New'',
                          description = ''''\<rparr>]\<rparr> ''Sword'' [''weight'', ''quantity''] (VInt 7)
     = (\<lparr>Items = [\<lparr>Name = ''Potion'', quantity = 2, abilities = None, condition = ''New'',
                          description = ''heals''\<rparr>,
                        \<lparr>Name = ''Sword'', quantity = 3, abilities = None, condition = ''New'',
                          description = ''''\<rparr>]\<rparr>, None)
   \<and> ChangeItem \<lparr>Items = [\<lparr>Name = ''Potion'', quantity = 2, abilities = None, condition = ''New'',
                          description = ''heals''\<rparr>,
                        \<lparr>Name = ''Sword'', quantity = 3, abilities = None, condition = ''New'',
                          description = ''''\<rparr>]\<rparr> ''Sword'' [''quantity'', ''weight''] (VInt 7)
     = (\<lparr>Items = [\<lparr>Name = ''Potion'', quantity = 2, abilities = None, condition = ''New'',
                          description = ''heals''\<rparr>,
                        \<lparr>Name = ''Sword'', quantity = 7, abilities = None, condition = ''New'',
                          description = ''''\<rparr>]\<rparr>, None)
   \<and> \<lparr>Items = [\<lparr>Name = ''Potion'', quantity = 2, abilities = None, condition = ''New'',
                          description = ''heals''\<rparr>,
                        \<lparr>Name = ''Sword'', quantity = 7, abilities = None, condition = ''New'',
                          description = ''''\<rparr>]\<rparr>
     \<noteq> \<lparr>Items = [\<lparr>Name = ''Potion'', quantity = 2, abilities = None, condition = ''New'',
                          description = ''heals''\<rparr>,
                        \<lparr>Name = ''Sword'', quantity = 3, abilities = None, condition = ''New'',
                          description = ''''\<rparr>]\<rparr>"
proof -
  have "ChangeItem \<lparr>Items = [\<lparr>Name = ''Potion'', quantity = 2, abilities = None, condition = ''New'',
                          description = ''heals''\<rparr>,
                        \<lparr>Name = ''Sword'', quantity = 3, abilities = None, condition = ''New'',
                          description = ''''\<rparr>]\<rparr> ''Axe'' [''quantity'', ''weight''] (VInt 7)
     = (\<lparr>Items = [\<lparr>Name = ''Potion'', quantity = 2, abilities = None, condition = ''New'',
                          description = ''heals''\<rparr>,
                        \<lparr>Name = ''Sword'', quantity = 3, abilities = None, condition = ''New'',
                          description = ''''\<rparr>]\<rparr>, None)"
    by (rule ChangeItem_not_found) simp
  moreover have "ChangeItem \<lparr>Items = [\<lparr>Name = ''Potion'', quantity = 2, abilities = None, condition = ''New'',
                          description = ''heals''\<rparr>,
                        \<lparr>Name = ''Sword'', quantity = 3, abilities = None, condition = ''New'',
                          description = ''''\<rparr>]\<rparr> ''Sword'' [''weight'', ''quantity''] (VInt 7)
     = (\<lparr>Items = [\<lparr>Name = ''Potion'', quantity = 2, abilities = None, condition = ''New'',
                          description = ''heals''\<rparr>,
                        \<lparr>Name = ''Sword'', quantity = 3, abilities = None, condition = ''New'',
                          description = ''''\<rparr>]\<rparr>, None)"
    by (simp add: ChangeItem_def GetItem_def)
  moreover have "ChangeItem \<lparr>Items = [\<lparr>Name = ''Potion'', quantity = 2, abilities = None, condition = ''New'',
                          description = ''heals''\<rparr>,
                        \<lparr>Name = ''Sword'', quantity = 3, abilities = None, condition = ''New'',
                          description = ''''\<rparr>]\<rparr> ''Sword'' [''quantity'', ''weight''] (VInt 7)
     = (\<lparr>Items = [\<lparr>Name = ''Potion'', quantity = 2, abilities = None, condition = ''New'',
                          description = ''heals''\<rparr>,
                        \<lparr>Name = ''Sword'', quantity = 7, abilities = None, condition = ''New'',
                          description = ''''\<rparr>]\<rparr>, None)"
    by (simp add: ChangeItem_def GetItem_def Item_SetQuantity_def)
  moreover have "\<lparr>Items = [\<lparr>Name = ''Potion'', quantity = 2, abilities = None, condition = ''New'',
                          description = ''heals''\<rparr>,
                        \<lparr>Name = ''Sword'', quantity = 7, abilities = None, condition = ''New'',
                          description = ''''\<rparr>]\<rparr>
     \<noteq> \<lparr>Items = [\<lparr>Name = ''Potion'', quantity = 2, abilities = None, condition = ''New'',
                          description = ''heals''\<rparr>,
                        \<lparr>Name = ''Sword'', quantity = 3, abilities = None, condition = ''New'',
                          description = ''''\<rparr>]\<rparr>"
    by simp
  ultimately show ?thesis by (intro conjI)
qed

section \<open>Characters\<close>

lemma setters_store_nonempty:
  "newName \<noteq> '''' \<Longrightarrow> SetName c newName = c\<lparr>name := newName\<rparr>"
  "newClass \<noteq> '''' \<Longrightarrow> SetClass c newClass = c\<lparr>class_c := newClass\<rparr>"
  "newCondition \<noteq> '''' \<Longrightarrow> SetCondition c newCondition = c\<lparr>condition_c := newCondition\<rparr>"
  by (simp_all add: SetName_def SetClass_def SetCondition_def Condition_String_def)

text \<open>
  Claim C8 as stated covers blank values. The setters test for the empty string
  only, so a value made of one space is stored like any other: the name, the class
  and the condition of the character below are replaced by it.
\<close>

theorem setters_blank_counterexample:
  "name (NewCharacter ''Elf'' ''Bob'' ''Mage'' NewDefaultAbilities NewInventory ''Healthy'') = ''Bob''
   \<and> name (SetName (NewCharacter ''Elf'' ''Bob'' ''Mage'' NewDefaultAbilities NewInventory ''Healthy'') '' '') = '' ''
   \<and> class_c (NewCharacter ''Elf'' ''Bob'' ''Mage'' NewDefaultAbilities NewInventory ''Healthy'') = ''Mage''
   \<and> class_c (SetClass (NewCharacter ''Elf'' ''Bob'' ''Mage'' NewDefaultAbilities NewInventory ''Healthy'') '' '') = '' ''
   \<and> condition_c (NewCharacter ''Elf'' ''Bob'' ''Mage'' NewDefaultAbilities NewInventory ''Healthy'') = ''Healthy''
   \<and> condition_c (SetCondition (NewCharacter ''Elf'' ''Bob'' ''Mage'' NewDefaultAbilities NewInventory ''Healthy'') (NewCondition '' '')) = '' ''
   \<and> SetName (NewCharacter ''Elf'' ''Bob'' ''Mage'' NewDefaultAbilities NewInventory ''Healthy'') '' '' \<noteq> (NewCharacter ''Elf'' ''Bob'' ''Mage'' NewDefaultAbilities NewInventory ''Healthy'')"
proof -
  have n: "name (NewCharacter ''Elf'' ''Bob'' ''Mage'' NewDefaultAbilities NewInventory ''Healthy'') = ''Bob''"
    and k: "class_c (NewCharacter ''Elf'' ''Bob'' ''Mage'' NewDefaultAbilities NewInventory ''Healthy'') = ''Mage''"
    and d: "condition_c (NewCharacter ''Elf'' ''Bob'' ''Mage'' NewDefaultAbilities NewInventory ''Healthy'') = ''Healthy''"
    by (simp_all add: NewCharacter_def)
  have sn: "name (SetName (NewCharacter ''Elf'' ''Bob'' ''Mage'' NewDefaultAbilities NewInventory ''Healthy'') '' '') = '' ''"
    by (simp add: SetName_def)
  have sk: "class_c (SetClass (NewCharacter ''Elf'' ''Bob'' ''Mage'' NewDefaultAbilities NewInventory ''Healthy'') '' '') = '' ''"
    by (simp add: SetClass_def)
  have sd: "condition_c (SetCondition (NewCharacter ''Elf'' ''Bob'' ''Mage'' NewDefaultAbilities NewInventory ''Healthy'') (NewCondition '' '')) = '' ''"
    by (simp add: SetCondition_def NewCondition_def Condition_String_def)
  have "name (SetName (NewCharacter ''Elf'' ''Bob'' ''Mage'' NewDefaultAbilities NewInventory ''Healthy'') '' '') \<noteq> name (NewCharacter ''Elf'' ''Bob'' ''Mage'' NewDefaultAbilities NewInventory ''Healthy'')"
    unfolding sn n by simp
  then have ne: "SetName (NewCharacter ''Elf'' ''Bob'' ''Mage'' NewDefaultAbilities NewInventory ''Healthy'') '' '' \<noteq> (NewCharacter ''Elf'' ''Bob'' ''Mage'' NewDefaultAbilities NewInventory ''Healthy'')"
    by auto
  from n sn k sk d sd ne show ?thesis
    by (intro conjI)
qed

text \<open>
  Claim C8, amended. For every character, \<^verbatim>\<open>SetName\<close>, \<^verbatim>\<open>SetClass\<close> and
  \<^verbatim>\<open>SetCondition\<close> called with the empty string return the character with every
  field as it was; the setters return no error. Called with any other value, a
  blank one of whitespace included, they store it in their field and leave the
  other fields as they were.
\<close>

theorem setters_keep_on_empty:
  "SetName c '''' = c \<and> SetClass c '''' = c \<and> SetCondition c (NewCondition '''') = c
   \<and> (v \<noteq> '''' \<longrightarrow>
        SetName c v = c\<lparr>name := v\<rparr> \<and> SetClass c v = c\<lparr>class_c := v\<rparr>
        \<and> SetCondition c (NewCondition v) = c\<lparr>condition_c := v\<rparr>)"
proof (intro conjI impI)
  show "SetName c '''' = c"
    by (simp add: SetName_def)
  show "SetClass c '''' = c"
    by (simp add: SetClass_def)
  have "Condition_String (NewCondition '''') = ''''"
    by (simp add: NewCondition_def Condition_String_def)
  then show "SetCondition c (NewCondition '''') = c"
    by (simp add: SetCondition_def)
next
  assume "v \<noteq> ''''"
  then show "SetName c v = c\<lparr>name := v\<rparr>"
    by (rule setters_store_nonempty(1))
next
  assume "v \<noteq> ''''"
  then show "SetClass c v = c\<lparr>class_c := v\<rparr>"
    by (rule setters_store_nonempty(2))
next
  assume "v \<noteq> ''''"
  then show "SetCondition c (NewCondition v) = c\<lparr>condition_c := v\<rparr>"
    by (simp add: setters_store_nonempty(3) NewCondition_def)
qed

theorem setters_keep_on_empty_witness:
  "SetName (NewCharacter ''Elf'' ''Bob'' ''Mage'' NewDefaultAbilities NewInventory ''Healthy'') '''' =
       (NewCharacter ''Elf'' ''Bob'' ''Mage'' NewDefaultAbilities NewInventory ''Healthy'')
   \<and> '' '' \<noteq> ''''
   \<and> SetName (NewCharacter ''Elf'' ''Bob'' ''Mage'' NewDefaultAbilities NewInventory ''Healthy'') '' '' =
       (NewCharacter ''Elf'' ''Bob'' ''Mage'' NewDefaultAbilities NewInventory ''Healthy'')\<lparr>name := '' ''\<rparr>
   \<and> SetClass (NewCharacter ''Elf'' ''Bob'' ''Mage'' NewDefaultAbilities NewInventory ''Healthy'') ''Bard'' =
       (NewCharacter ''Elf'' ''Bob'' ''Mage'' NewDefaultAbilities NewInventory ''Healthy'')\<lparr>class_c := ''Bard''\<rparr>"
  using setters_keep_on_empty [of "NewCharacter ''Elf'' ''Bob'' ''Mage'' NewDefaultAbilities NewInventory ''Healthy''"
      "'' ''"]
    setters_keep_on_empty [of "NewCharacter ''Elf'' ''Bob'' ''Mage'' NewDefaultAbilities NewInventory ''Healthy''"
      "''Bard''"]
  by simp

text \<open>
  Claim C9. \<^verbatim>\<open>NewCharacter\<close> validates nothing and returns a character for every
  argument: the fields are the arguments and \<open>manaPoints\<close> is the abilities'
  intelligence times 50, in Go's arithmetic. For an intelligence in [1,10] that is
  the product of the numbers, and intelligence 8 gives 400.
\<close>

theorem NewCharacter_mana:
  "NewCharacter r n k a i cd =
     \<lparr>race = r, name = n, class_c = k, abilities_c = a, inventory = i, condition_c = cd,
      manaPoints = intelligence a * 50\<rparr>
   \<and> (in_range (intelligence a)
        \<longrightarrow> sint (manaPoints (NewCharacter r n k a i cd)) = sint (intelligence a) * 50)
   \<and> (intelligence a = 8 \<longrightarrow> manaPoints (NewCharacter r n k a i cd) = 400)"
proof (intro conjI impI)
  show "NewCharacter r n k a i cd =
     \<lparr>race = r, name = n, class_c = k, abilities_c = a, inventory = i, condition_c = cd,
      manaPoints = intelligence a * 50\<rparr>"
    by (simp add: NewCharacter_def GetIntelligence_def)
next
  assume "in_range (intelligence a)"
  then have "- (2 ^ 63) \<le> sint (intelligence a) * 50" "sint (intelligence a) * 50 < 2 ^ 63"
    by (simp_all add: in_range_def)
  then have "sint (intelligence a * 50) = sint (intelligence a) * 50"
    by (simp add: sint_word_ariths signed_take_bit_int_eq_self)
  then show "sint (manaPoints (NewCharacter r n k a i cd)) = sint (intelligence a) * 50"
    by (simp add: NewCharacter_def GetIntelligence_def)
next
  assume "intelligence a = 8"
  then show "manaPoints (NewCharacter r n k a i cd) = 400"
    by (simp add: NewCharacter_def GetIntelligence_def)
qed

theorem NewCharacter_mana_witness:
  "\<exists>a. NewAbilities 7 5 5 5 5 8 = Inr a
     \<and> in_range (intelligence a) \<and> intelligence a = 8
     \<and> manaPoints (NewCharacter ''Elf'' ''Bob'' ''Mage'' a
            (AddItem NewInventory \<lparr>Name = ''Sword'', quantity = 1, abilities = None,
               condition = ''New'', description = ''''\<rparr>) ''Healthy'') = 400
     \<and> sint (manaPoints (NewCharacter ''Elf'' ''Bob'' ''Mage'' a
            (AddItem NewInventory \<lparr>Name = ''Sword'', quantity = 1, abilities = None,
               condition = ''New'', description = ''''\<rparr>) ''Healthy'')) = 400
     \<and> map Name (Items (inventory (NewCharacter ''Elf'' ''Bob'' ''Mage'' a
            (AddItem NewInventory \<lparr>Name = ''Sword'', quantity = 1, abilities = None,
               condition = ''New'', description = ''''\<rparr>) ''Healthy''))) = [''Sword'']"
proof -
  define a where "a = \<lparr>pointsPool = 0, strength = 7, luck = 5, charisma = 5, agility = 5,
          perception = 5, intelligence = (8 :: goint)\<rparr>"
  have n: "NewAbilities 7 5 5 5 5 8 = Inr a"
    unfolding NewAbilities_Inr_iff a_def by (simp add: in_range_def)
  have r: "in_range (intelligence a)" and e: "intelligence a = 8"
    by (simp_all add: a_def in_range_def)
  have inv: "AddItem NewInventory \<lparr>Name = ''Sword'', quantity = 1, abilities = None,
               condition = ''New'', description = ''''\<rparr>
      = \<lparr>Items = [\<lparr>Name = ''Sword'', quantity = 1, abilities = None,
               condition = ''New'', description = ''''\<rparr>]\<rparr>"
    by (simp add: AddItem_def NewInventory_def)
  show ?thesis
    using n r e inv
      NewCharacter_mana [of "''Elf''" "''Bob''" "''Mage''" a
        "\<lparr>Items = [\<lparr>Name = ''Sword'', quantity = 1, abilities = None,
               condition = ''New'', description = ''''\<rparr>]\<rparr>" "''Healthy''"]
    by simp
qed

end
